theory Spec2Isabelle
  imports Complex_Main
begin

section \<open>Data model of the mind-map editor\<close>

text \<open>
  The editor of \<^verbatim>\<open>client/src/pages/MindMapEditor.js\<close> keeps its graph in React state:
  an array of nodes, an array of edges, a \<^verbatim>\<open>Set\<close> of collapsed node ids, the selected node
  and edge, and the pending connection settings. Every handler is embedded as a function
  from the state before the gesture to the state after it; the updater functions passed
  to \<^verbatim>\<open>setNodes\<close> and \<^verbatim>\<open>setEdges\<close> are applied in the order the handler issues them.

  Node and edge ids are strings. A property that is \<^verbatim>\<open>undefined\<close> or absent is \<open>None\<close>. A
  JavaScript \<^verbatim>\<open>Set\<close> of strings is the list of its elements in insertion order. The values
  returned by \<^verbatim>\<open>uuid()\<close> and \<^verbatim>\<open>Math.random()\<close> are arguments of the handler that consumes
  them. Every updater runs once, and a handler sees the state its gesture started from.
\<close>

subsection \<open>Numbers\<close>

text \<open>
  Coordinates and stroke widths are JavaScript numbers. Their type is the type variable
  \<open>'n\<close>, and the operations of the runtime on them are the fields of a record that every
  handler doing arithmetic receives: \<^verbatim>\<open>+\<close>, \<^verbatim>\<open>-\<close>, \<^verbatim>\<open>*\<close>, \<^verbatim>\<open>/\<close>, the value of an integer
  literal, and what \<^verbatim>\<open>JSON.parse\<close> reads from what \<^verbatim>\<open>JSON.stringify\<close> wrote for a value held
  by a numeric property (a finite number is read back as it is; \<^verbatim>\<open>NaN\<close> and the infinities
  are written as \<^verbatim>\<open>null\<close>). Nothing is assumed about these operations: what is proved
  holds for the doubles of the runtime with their rounding and overflow.
\<close>

record 'n runtime =
  js_add :: "'n \<Rightarrow> 'n \<Rightarrow> 'n"
  js_sub :: "'n \<Rightarrow> 'n \<Rightarrow> 'n"
  js_mul :: "'n \<Rightarrow> 'n \<Rightarrow> 'n"
  js_div :: "'n \<Rightarrow> 'n \<Rightarrow> 'n"
  js_lit :: "int \<Rightarrow> 'n"
  js_reread :: "'n \<Rightarrow> 'n"

text \<open>
  The runtime whose numbers are the rationals: no rounding, no overflow, and every number
  is read back from JSON as it was written. The example sessions below run on it; their
  numbers are integers below a thousand and the random number one half, on which the
  arithmetic of doubles is exact as well.
\<close>

definition exact_runtime :: "rat runtime" where
  "exact_runtime =
     \<lparr>js_add = (\<lambda>a b. a + b), js_sub = (\<lambda>a b. a - b), js_mul = (\<lambda>a b. a * b),
      js_div = (\<lambda>a b. a / b), js_lit = of_int, js_reread = (\<lambda>a. a)\<rparr>"

subsection \<open>Nodes, edges and the editor state\<close>

record 'n position =
  pos_x :: 'n
  pos_y :: 'n

text \<open>
  The colour of a node is a string, except where the palette lookup \<^verbatim>\<open>SUBJECTS[subject]\<close>
  finds a property that the palette object inherits from \<^verbatim>\<open>Object.prototype\<close>:
  \<open>Inherited k\<close> is the value of the inherited property \<open>k\<close> (a function, or the prototype
  object itself for \<^verbatim>\<open>__proto__\<close>), and \<open>EmptyObject\<close> is what is read back from JSON for
  the prototype object.
\<close>

datatype color = ColorString string | Inherited string | EmptyObject

record node_data =
  data_label :: "string option"
  data_subject :: "string option"
  data_color :: "color option"
  data_collapsed :: "bool option"

record 'n node =
  node_id :: string
  node_type :: string
  node_position :: "'n position"
  node_data :: node_data

datatype marker = ArrowClosed

record 'n style =
  stroke :: "string option"
  strokeWidth :: "'n option"
  strokeDasharray :: "string option"

record 'n edge =
  edge_id :: string
  source :: string
  target :: string
  edge_type :: "string option"
  label :: "string option"
  style :: "'n style option"
  markerEnd :: "marker option"
  markerStart :: "marker option"
  labelShowBg :: "bool option"
  labelBgStyle :: "string option"
  labelStyle :: "string option"
  labelBgPadding :: "(nat \<times> nat) option"

datatype conn_type = OneWay | TwoWay | NoArrow

datatype tool = ToolOneWay | ToolTwoWay | ToolInformational | ToolNode | ToolDotted | ToolWaypoint

record 'n state =
  nodes :: "'n node list"
  edges :: "'n edge list"
  selectedId :: "string option"
  selectedEdgeId :: "string option"
  collapsed :: "string list"
  connLabel :: string
  connType :: conn_type
  connColor :: string
  connWidth :: 'n
  connLabelBg :: bool
  connLabelBgColor :: string
  connLabelTextColor :: string
  currentTool :: tool

subsection \<open>The subject palette\<close>

definition SUBJECTS_Math :: string where
  "SUBJECTS_Math = ''#4f83cc''"

definition SUBJECTS_Science :: string where
  "SUBJECTS_Science = ''#4caf50''"

definition SUBJECTS_History :: string where
  "SUBJECTS_History = ''#ffb300''"

definition SUBJECTS_Default :: string where
  "SUBJECTS_Default = ''#2d7ef7''"

definition SUBJECTS :: "(string \<times> string) list" where
  "SUBJECTS =
     [(''Math'', SUBJECTS_Math), (''Science'', SUBJECTS_Science), (''History'', SUBJECTS_History),
      (''Literature'', ''#9c27b0''), (''CS'', ''#5c6bc0''), (''Default'', SUBJECTS_Default)]"

text \<open>
  The properties that an object literal inherits from \<^verbatim>\<open>Object.prototype\<close>. Each of them
  is truthy: eleven functions and, under \<^verbatim>\<open>__proto__\<close>, the prototype object.
\<close>

definition Object_prototype_keys :: "string list" where
  "Object_prototype_keys =
     [''constructor'', ''hasOwnProperty'', ''isPrototypeOf'', ''propertyIsEnumerable'',
      ''toLocaleString'', ''toString'', ''valueOf'', ''__defineGetter__'', ''__defineSetter__'',
      ''__lookupGetter__'', ''__lookupSetter__'', ''__proto__'']"

text \<open>\<^verbatim>\<open>SUBJECTS[subject] || SUBJECTS.Default\<close>\<close>

definition subject_color :: "string \<Rightarrow> color" where
  "subject_color subject =
     (case map_of SUBJECTS subject of
        Some c \<Rightarrow> ColorString c
      | None \<Rightarrow> if subject \<in> set Object_prototype_keys then Inherited subject
                else ColorString SUBJECTS_Default)"

subsection \<open>The first render\<close>

text \<open>The state of the first render: one node \<^verbatim>\<open>root\<close>, no edge, \<^verbatim>\<open>root\<close> selected.\<close>

definition root_node :: "'n runtime \<Rightarrow> 'n node" where
  "root_node rt =
     \<lparr>node_id = ''root'', node_type = ''study'',
      node_position = \<lparr>pos_x = js_lit rt 250, pos_y = js_lit rt 100\<rparr>,
      node_data = \<lparr>data_label = Some ''Study Plan'', data_subject = Some ''Default'',
                   data_color = Some (ColorString SUBJECTS_Default),
                   data_collapsed = Some False\<rparr>\<rparr>"

definition initial_state :: "'n runtime \<Rightarrow> 'n state" where
  "initial_state rt =
     \<lparr>nodes = [root_node rt], edges = [], selectedId = Some ''root'', selectedEdgeId = None,
      collapsed = [], connLabel = '''', connType = OneWay, connColor = ''#4f46e5'',
      connWidth = js_lit rt 2, connLabelBg = True, connLabelBgColor = ''#ffffff'',
      connLabelTextColor = ''#111827'', currentTool = ToolOneWay\<rparr>"

text \<open>An edge literal that sets none of its properties; the handlers fill in what they set.\<close>

definition blank_edge :: "string \<Rightarrow> string \<Rightarrow> string \<Rightarrow> 'n edge" where
  "blank_edge i s t =
     \<lparr>edge_id = i, source = s, target = t, edge_type = None, label = None, style = None,
      markerEnd = None, markerStart = None, labelShowBg = None, labelBgStyle = None,
      labelStyle = None, labelBgPadding = None\<rparr>"

text \<open>\<^verbatim>\<open>s || undefined\<close> on a string: the empty string is falsy.\<close>

definition or_undefined :: "string \<Rightarrow> string option" where
  "or_undefined s = (if s = [] then None else Some s)"

text \<open>Truthiness of an id that may be \<^verbatim>\<open>null\<close>.\<close>

definition truthy :: "string option \<Rightarrow> bool" where
  "truthy v = (case v of None \<Rightarrow> False | Some s \<Rightarrow> s \<noteq> [])"

section \<open>Visibility engine\<close>

text \<open>
  \<^verbatim>\<open>edges.forEach\<close> inside the loop of \<^verbatim>\<open>computeHiddenTargets\<close>: every edge leaving \<open>src\<close>
  whose target is not yet hidden adds the target to \<open>hidden\<close> and pushes it on the queue.
\<close>

fun forEach_edges :: "string \<Rightarrow> 'n edge list \<Rightarrow> string list \<times> string list \<Rightarrow> string list \<times> string list" where
  "forEach_edges src [] (hidden, queue) = (hidden, queue)"
| "forEach_edges src (e # es) (hidden, queue) =
     (if source e = src \<and> target e \<notin> set hidden
      then forEach_edges src es (hidden @ [target e], queue @ [target e])
      else forEach_edges src es (hidden, queue))"

text \<open>The \<^verbatim>\<open>while (queue.length)\<close> loop; \<^verbatim>\<open>queue.shift()\<close> takes the head.\<close>

function bfs_loop :: "'n edge list \<Rightarrow> string list \<Rightarrow> string list \<Rightarrow> string list" where
  "bfs_loop eds [] hidden = hidden"
| "bfs_loop eds (src # queue) hidden =
     (case forEach_edges src eds (hidden, queue) of
        (hidden', queue') \<Rightarrow> bfs_loop eds queue' hidden')"
  by pat_completeness auto

lemma forEach_edges_shape:
  "\<exists>new. forEach_edges src es (hidden, queue) = (hidden @ new, queue @ new) \<and>
     distinct new \<and> set new \<inter> set hidden = {} \<and> set new \<subseteq> target ` set es"
proof (induction es arbitrary: hidden queue)
  case Nil
  then show ?case by simp
next
  case (Cons e es)
  show ?case
  proof (cases "source e = src \<and> target e \<notin> set hidden")
    case True
    from Cons.IH [of "hidden @ [target e]" "queue @ [target e]"]
    obtain new where n: "forEach_edges src es (hidden @ [target e], queue @ [target e])
        = ((hidden @ [target e]) @ new, (queue @ [target e]) @ new)"
      "distinct new" "set new \<inter> set (hidden @ [target e]) = {}" "set new \<subseteq> target ` set es"
      by blast
    show ?thesis
      apply (rule exI [of _ "target e # new"])
      using True n by auto
  next
    case False
    from Cons.IH [of hidden queue] obtain new where
      "forEach_edges src es (hidden, queue) = (hidden @ new, queue @ new)"
      "distinct new" "set new \<inter> set hidden = {}" "set new \<subseteq> target ` set es"
      by blast
    with False show ?thesis by auto
  qed
qed

lemma card_diff_new:
  assumes "distinct new" "set new \<inter> H = {}" "set new \<subseteq> T" "finite T"
  shows "card (T - (H \<union> set new)) + length new = card (T - H)"
proof -
  have "T - H = (T - (H \<union> set new)) \<union> set new" using assms by auto
  moreover have "(T - (H \<union> set new)) \<inter> set new = {}" by auto
  ultimately have "card (T - H) = card (T - (H \<union> set new)) + card (set new)"
    using assms(4) by (metis List.finite_set card_Un_disjoint finite_Diff)
  then show ?thesis using assms(1) by (simp add: distinct_card)
qed

text \<open>
  Each iteration removes one id from the queue and pushes only ids that were not hidden
  before: the number of edge targets still to hide plus the queue length decreases.
\<close>

termination bfs_loop
  apply (relation "measure (\<lambda>(eds, queue, hidden). card (target ` set eds - set hidden) + length queue)")
   apply simp
  subgoal for eds src queue hidden xa y
    using forEach_edges_shape [of src eds hidden queue]
    apply clarsimp
    subgoal for new
      using card_diff_new [of new "set hidden" "target ` set eds"]
      by simp
    done
  done

definition computeHiddenTargets :: "string list \<Rightarrow> 'n edge list \<Rightarrow> string list" where
  "computeHiddenTargets collapsedIds eds = bfs_loop eds collapsedIds []"

text \<open>
  The same loop with a record of its queue traffic: the ids taken by \<^verbatim>\<open>queue.shift()\<close>, in
  order, and the ids handed to \<^verbatim>\<open>queue.push\<close>, in order. The ids pushed by one iteration are
  the ones \<^verbatim>\<open>forEach\<close> appended to the queue.
\<close>

function bfs_trace :: "'n edge list \<Rightarrow> string list \<Rightarrow> string list \<Rightarrow> string list \<times> string list \<times> string list" where
  "bfs_trace eds [] hidden = (hidden, [], [])"
| "bfs_trace eds (src # queue) hidden =
     (case forEach_edges src eds (hidden, queue) of
        (hidden', queue') \<Rightarrow>
          (case bfs_trace eds queue' hidden' of
             (result, shifted, pushed) \<Rightarrow>
               (result, src # shifted, drop (length queue) queue' @ pushed)))"
  by pat_completeness auto

termination bfs_trace
  apply (relation "measure (\<lambda>(eds, queue, hidden). card (target ` set eds - set hidden) + length queue)")
   apply simp
  subgoal for eds src queue hidden xa y
    using forEach_edges_shape [of src eds hidden queue]
    apply clarsimp
    subgoal for new
      using card_diff_new [of new "set hidden" "target ` set eds"]
      by simp
    done
  done

definition shifted_ids :: "string list \<Rightarrow> 'n edge list \<Rightarrow> string list" where
  "shifted_ids collapsedIds eds = fst (snd (bfs_trace eds collapsedIds []))"

definition pushed_ids :: "string list \<Rightarrow> 'n edge list \<Rightarrow> string list" where
  "pushed_ids collapsedIds eds = snd (snd (bfs_trace eds collapsedIds []))"

text \<open>The derived values of a render: \<^verbatim>\<open>hiddenTargets\<close>, \<^verbatim>\<open>decoratedNodes\<close>, \<^verbatim>\<open>visibleEdges\<close>.\<close>

definition hiddenTargets :: "'n state \<Rightarrow> string list" where
  "hiddenTargets s = computeHiddenTargets (collapsed s) (edges s)"

text \<open>
  A decorated node is the node with two more data properties. \<^verbatim>\<open>search\<close> is the constant
  empty string, so \<^verbatim>\<open>q\<close> is empty and \<^verbatim>\<open>matchesQuery\<close> is false; the callback
  \<^verbatim>\<open>onToggleCollapse\<close> is the handler \<open>onToggleCollapse\<close> below.
\<close>

record 'n decorated_node =
  rendered :: "'n node"
  matchesQuery :: bool

definition decoratedNodes :: "'n state \<Rightarrow> 'n decorated_node list" where
  "decoratedNodes s =
     map (\<lambda>n. \<lparr>rendered = n, matchesQuery = False\<rparr>)
       (filter (\<lambda>n. node_id n \<notin> set (hiddenTargets s) \<and> node_id n \<notin> set (collapsed s))
          (nodes s))"

definition visibleEdges :: "'n state \<Rightarrow> 'n edge list" where
  "visibleEdges s =
     filter (\<lambda>e. source e \<notin> set (hiddenTargets s) \<and> target e \<notin> set (hiddenTargets s)
                 \<and> source e \<notin> set (collapsed s))
       (edges s)"

definition onToggleCollapse :: "string \<Rightarrow> 'n state \<Rightarrow> 'n state" where
  "onToggleCollapse i s =
     s\<lparr>collapsed := (if i \<in> set (collapsed s) then filter (\<lambda>c. c \<noteq> i) (collapsed s)
                     else collapsed s @ [i])\<rparr>"

text \<open>The relation the traversal follows: one step from an edge's source to its target.\<close>

definition edge_rel :: "'n edge list \<Rightarrow> (string \<times> string) set" where
  "edge_rel eds = (\<lambda>e. (source e, target e)) ` set eds"

section \<open>Handlers that create nodes and edges\<close>

definition createNodeBox :: "'n runtime \<Rightarrow> string \<Rightarrow> 'n \<Rightarrow> 'n \<Rightarrow> 'n state \<Rightarrow> 'n state" where
  "createNodeBox rt i r1 r2 s =
     (let pos = \<lparr>pos_x = js_add rt (js_lit rt 120) (js_mul rt r1 (js_lit rt 200)),
                 pos_y = js_add rt (js_lit rt 120) (js_mul rt r2 (js_lit rt 200))\<rparr>;
          color = ColorString SUBJECTS_Default;
          newNode = \<lparr>node_id = i, node_type = ''study'', node_position = pos,
                     node_data = \<lparr>data_label = Some ''New Node'', data_subject = Some ''Default'',
                                  data_color = Some color, data_collapsed = Some False\<rparr>\<rparr>
      in s\<lparr>nodes := nodes s @ [newNode], selectedId := Some i\<rparr>)"

definition createNodeBoxAt :: "string \<Rightarrow> 'n position \<Rightarrow> 'n state \<Rightarrow> 'n state" where
  "createNodeBoxAt i pos s =
     (let color = ColorString SUBJECTS_Default;
          newNode = \<lparr>node_id = i, node_type = ''study'', node_position = pos,
                     node_data = \<lparr>data_label = Some ''New Node'', data_subject = Some ''Default'',
                                  data_color = Some color, data_collapsed = Some False\<rparr>\<rparr>
      in s\<lparr>nodes := nodes s @ [newNode], selectedId := Some i\<rparr>)"

definition createInfoNodeAt :: "string \<Rightarrow> 'n position \<Rightarrow> 'n state \<Rightarrow> 'n state" where
  "createInfoNodeAt i pos s =
     (let newNode = \<lparr>node_id = i, node_type = ''info'', node_position = pos,
                     node_data = \<lparr>data_label = Some ''Info'', data_subject = None,
                                  data_color = Some (ColorString ''#fff''),
                                  data_collapsed = None\<rparr>\<rparr>
      in s\<lparr>nodes := nodes s @ [newNode], selectedId := Some i\<rparr>)"

text \<open>The waypoint literal \<^verbatim>\<open>{ id: wpId, type: 'waypoint', position, data: {} }\<close>.\<close>

definition waypoint_node :: "string \<Rightarrow> 'n position \<Rightarrow> 'n node" where
  "waypoint_node wpId pos =
     \<lparr>node_id = wpId, node_type = ''waypoint'', node_position = pos,
      node_data = \<lparr>data_label = None, data_subject = None, data_color = None,
                   data_collapsed = None\<rparr>\<rparr>"

definition find_node :: "string \<Rightarrow> 'n node list \<Rightarrow> 'n node option" where
  "find_node i nds = List.find (\<lambda>n. node_id n = i) nds"

definition find_edge :: "string \<Rightarrow> 'n edge list \<Rightarrow> 'n edge option" where
  "find_edge i eds = List.find (\<lambda>x. edge_id x = i) eds"

text \<open>
  \<^verbatim>\<open>onConnect(params)\<close> with \<open>src = params.source\<close> and \<open>tgt = params.target\<close>. The handler
  calls \<^verbatim>\<open>uuid()\<close> once on entry (\<open>u1\<close>); the node tool calls it once more in
  \<^verbatim>\<open>createNodeBox\<close> (\<open>u2\<close>) with two random numbers; the informational tool calls it three
  more times, for the waypoint (\<open>u2\<close>) and the two edges (\<open>u3\<close>, \<open>u4\<close>). \<open>connWidth\<close> is
  the number \<^verbatim>\<open>Number(connWidth)\<close>.
\<close>

definition onConnect ::
  "'n runtime \<Rightarrow> string \<Rightarrow> string \<Rightarrow> string \<Rightarrow> string \<Rightarrow> string \<Rightarrow> string \<Rightarrow> 'n \<Rightarrow> 'n \<Rightarrow>
   'n state \<Rightarrow> 'n state" where
  "onConnect rt src tgt u1 u2 u3 u4 r1 r2 s =
     (let baseStyle = \<lparr>stroke = Some (connColor s), strokeWidth = Some (connWidth s),
                       strokeDasharray = None\<rparr>
      in if currentTool s = ToolNode then createNodeBox rt u2 r1 r2 s
      else if currentTool s = ToolInformational then
        (let wpId = u2;
             srcNode = find_node src (nodes s);
             tgtNode = find_node tgt (nodes s);
             mid = (case srcNode of
                      None \<Rightarrow> \<lparr>pos_x = js_lit rt 120, pos_y = js_lit rt 120\<rparr>
                    | Some a \<Rightarrow>
                        (case tgtNode of
                           None \<Rightarrow> \<lparr>pos_x = js_lit rt 120, pos_y = js_lit rt 120\<rparr>
                         | Some b \<Rightarrow>
                             \<lparr>pos_x = js_div rt (js_add rt (pos_x (node_position a))
                                                           (pos_x (node_position b))) (js_lit rt 2),
                              pos_y = js_div rt (js_add rt (pos_y (node_position a))
                                                           (pos_y (node_position b))) (js_lit rt 2)\<rparr>));
             waypoint = waypoint_node wpId mid;
             edgeA = \<lparr>edge_id = u3, source = src, target = wpId, edge_type = Some ''smoothstep'',
                      label = or_undefined (connLabel s), style = Some baseStyle,
                      markerEnd = None, markerStart = None, labelShowBg = Some (connLabelBg s),
                      labelBgStyle = Some (connLabelBgColor s),
                      labelStyle = Some (connLabelTextColor s), labelBgPadding = Some (6, 4)\<rparr>;
             edgeB = \<lparr>edge_id = u4, source = wpId, target = tgt, edge_type = Some ''smoothstep'',
                      label = None, style = Some baseStyle,
                      markerEnd = None, markerStart = None, labelShowBg = None,
                      labelBgStyle = None, labelStyle = None, labelBgPadding = None\<rparr>
         in s\<lparr>nodes := nodes s @ [waypoint], edges := edges s @ [edgeA, edgeB]\<rparr>)
      else if currentTool s = ToolDotted then
        (let e = \<lparr>edge_id = u1, source = src, target = tgt, edge_type = Some ''smoothstep'',
                  label = or_undefined (connLabel s),
                  style = Some (baseStyle\<lparr>strokeDasharray := Some ''6 6''\<rparr>),
                  markerEnd = (if connType s \<noteq> NoArrow then Some ArrowClosed else None),
                  markerStart = (if connType s = TwoWay then Some ArrowClosed else None),
                  labelShowBg = Some (connLabelBg s), labelBgStyle = Some (connLabelBgColor s),
                  labelStyle = Some (connLabelTextColor s), labelBgPadding = Some (6, 4)\<rparr>
         in s\<lparr>edges := edges s @ [e]\<rparr>)
      else
        (let e = \<lparr>edge_id = u1, source = src, target = tgt, edge_type = Some ''smoothstep'',
                  label = or_undefined (connLabel s), style = Some baseStyle,
                  markerEnd = (if connType s \<noteq> NoArrow then Some ArrowClosed else None),
                  markerStart = (if connType s = TwoWay then Some ArrowClosed else None),
                  labelShowBg = Some (connLabelBg s), labelBgStyle = Some (connLabelBgColor s),
                  labelStyle = Some (connLabelTextColor s), labelBgPadding = Some (6, 4)\<rparr>
         in s\<lparr>edges := edges s @ [e]\<rparr>))"

text \<open>The tool buttons set the tool and, except for two of them, the pending arrow mode.\<close>

definition selectTool :: "tool \<Rightarrow> 'n state \<Rightarrow> 'n state" where
  "selectTool t s =
     (case t of
        ToolOneWay \<Rightarrow> s\<lparr>currentTool := ToolOneWay, connType := OneWay\<rparr>
      | ToolTwoWay \<Rightarrow> s\<lparr>currentTool := ToolTwoWay, connType := TwoWay\<rparr>
      | ToolInformational \<Rightarrow> s\<lparr>currentTool := ToolInformational, connType := NoArrow\<rparr>
      | ToolNode \<Rightarrow> s\<lparr>currentTool := ToolNode\<rparr>
      | ToolDotted \<Rightarrow> s\<lparr>currentTool := ToolDotted, connType := OneWay\<rparr>
      | ToolWaypoint \<Rightarrow> s\<lparr>currentTool := ToolWaypoint\<rparr>)"

definition setConnType :: "conn_type \<Rightarrow> 'n state \<Rightarrow> 'n state" where
  "setConnType c s = s\<lparr>connType := c\<rparr>"

definition setConnLabel :: "string \<Rightarrow> 'n state \<Rightarrow> 'n state" where
  "setConnLabel l s = s\<lparr>connLabel := l\<rparr>"

definition setConnColor :: "string \<Rightarrow> 'n state \<Rightarrow> 'n state" where
  "setConnColor c s = s\<lparr>connColor := c\<rparr>"

definition setConnWidth :: "'n \<Rightarrow> 'n state \<Rightarrow> 'n state" where
  "setConnWidth w s = s\<lparr>connWidth := w\<rparr>"

definition setConnLabelBg :: "bool \<Rightarrow> 'n state \<Rightarrow> 'n state" where
  "setConnLabelBg b s = s\<lparr>connLabelBg := b\<rparr>"

definition setConnLabelBgColor :: "string \<Rightarrow> 'n state \<Rightarrow> 'n state" where
  "setConnLabelBgColor c s = s\<lparr>connLabelBgColor := c\<rparr>"

definition setConnLabelTextColor :: "string \<Rightarrow> 'n state \<Rightarrow> 'n state" where
  "setConnLabelTextColor c s = s\<lparr>connLabelTextColor := c\<rparr>"

text \<open>
  \<^verbatim>\<open>onNodesChange\<close> and \<^verbatim>\<open>onEdgesChange\<close> install what the rendering library makes of the
  current list and the changes it reports (moves, selections, and the removal of the
  selected elements on Backspace). The library functions \<^verbatim>\<open>applyNodeChanges\<close> and
  \<^verbatim>\<open>applyEdgeChanges\<close> are not part of the source and are parameters; the handlers pass
  their result on as it is.
\<close>

definition onNodesChange :: "('c \<Rightarrow> 'n node list \<Rightarrow> 'n node list) \<Rightarrow> 'c \<Rightarrow> 'n state \<Rightarrow> 'n state" where
  "onNodesChange applyNodeChanges changes s = s\<lparr>nodes := applyNodeChanges changes (nodes s)\<rparr>"

definition onEdgesChange :: "('c \<Rightarrow> 'n edge list \<Rightarrow> 'n edge list) \<Rightarrow> 'c \<Rightarrow> 'n state \<Rightarrow> 'n state" where
  "onEdgesChange applyEdgeChanges changes s = s\<lparr>edges := applyEdgeChanges changes (edges s)\<rparr>"

section \<open>Selection and deletion\<close>

text \<open>\<^verbatim>\<open>onSelectionChange({ nodes, edges })\<close>: the first selected node wins over the first edge.\<close>

definition onSelectionChange :: "'n node list \<Rightarrow> 'n edge list \<Rightarrow> 'n state \<Rightarrow> 'n state" where
  "onSelectionChange sel_nodes sel_edges s =
     (case sel_nodes of
        n # _ \<Rightarrow> s\<lparr>selectedId := Some (node_id n), selectedEdgeId := None\<rparr>
      | [] \<Rightarrow>
          (case sel_edges of
             e # _ \<Rightarrow> s\<lparr>selectedEdgeId := Some (edge_id e), selectedId := None\<rparr>
           | [] \<Rightarrow> s\<lparr>selectedId := None, selectedEdgeId := None\<rparr>))"

definition selectedNode :: "'n state \<Rightarrow> 'n node option" where
  "selectedNode s = (case selectedId s of None \<Rightarrow> None | Some i \<Rightarrow> find_node i (nodes s))"

definition selectedEdge :: "'n state \<Rightarrow> 'n edge option" where
  "selectedEdge s = (case selectedEdgeId s of None \<Rightarrow> None | Some i \<Rightarrow> find_edge i (edges s))"

text \<open>
  The \<^verbatim>\<open>keydown\<close> handler on \<^verbatim>\<open>Delete\<close> or \<^verbatim>\<open>Backspace\<close>: a selected edge is removed first;
  otherwise a selected node other than \<^verbatim>\<open>root\<close> is removed with its incident edges.
\<close>

definition onKey_Delete :: "'n state \<Rightarrow> 'n state" where
  "onKey_Delete s =
     (if truthy (selectedEdgeId s) then
        s\<lparr>edges := filter (\<lambda>x. Some (edge_id x) \<noteq> selectedEdgeId s) (edges s),
          selectedEdgeId := None\<rparr>
      else if truthy (selectedId s) \<and> selectedId s \<noteq> Some ''root'' then
        s\<lparr>nodes := filter (\<lambda>n. Some (node_id n) \<noteq> selectedId s) (nodes s),
          edges := filter (\<lambda>ed. Some (source ed) \<noteq> selectedId s \<and> Some (target ed) \<noteq> selectedId s)
                     (edges s),
          selectedId := None\<rparr>
      else s)"

definition deleteSelected :: "'n state \<Rightarrow> 'n state" where
  "deleteSelected s =
     (case selectedNode s of
        None \<Rightarrow> s
      | Some sel \<Rightarrow>
          if node_id sel = ''root'' then s
          else (let i = node_id sel
                in s\<lparr>nodes := filter (\<lambda>n. node_id n \<noteq> i) (nodes s),
                     edges := filter (\<lambda>e. source e \<noteq> i \<and> target e \<noteq> i) (edges s),
                     selectedId := Some ''root''\<rparr>))"

text \<open>The two buttons that delete an edge: in the edge inspector and in the connection list.\<close>

definition deleteSelectedEdge :: "'n state \<Rightarrow> 'n state" where
  "deleteSelectedEdge s =
     (case selectedEdge s of
        None \<Rightarrow> s
      | Some sel \<Rightarrow>
          s\<lparr>edges := filter (\<lambda>x. edge_id x \<noteq> edge_id sel) (edges s), selectedEdgeId := None\<rparr>)"

definition deleteEdge :: "string \<Rightarrow> 'n state \<Rightarrow> 'n state" where
  "deleteEdge i s = s\<lparr>edges := filter (\<lambda>e. edge_id e \<noteq> i) (edges s)\<rparr>"

text \<open>\<^verbatim>\<open>addChild(subject)\<close>: \<open>u1\<close> is the id of the new node, \<open>u2\<close> of the new edge.\<close>

definition addChild :: "'n runtime \<Rightarrow> string \<Rightarrow> string \<Rightarrow> string \<Rightarrow> 'n \<Rightarrow> 'n state \<Rightarrow> 'n state" where
  "addChild rt subject u1 u2 r s =
     (let base = (case selectedNode s of
                    Some n \<Rightarrow> Some n
                  | None \<Rightarrow> (case nodes s of [] \<Rightarrow> None | n # _ \<Rightarrow> Some n))
      in case base of
           None \<Rightarrow> s
         | Some b \<Rightarrow>
             (let pos = \<lparr>pos_x = js_add rt (pos_x (node_position b)) (js_lit rt 200),
                         pos_y = js_add rt (pos_y (node_position b))
                                   (js_sub rt (js_mul rt r (js_lit rt 160)) (js_lit rt 80))\<rparr>;
                  color = subject_color subject;
                  newNode = \<lparr>node_id = u1, node_type = ''study'', node_position = pos,
                             node_data = \<lparr>data_label = Some (subject @ '' Topic''),
                                          data_subject = Some subject, data_color = Some color,
                                          data_collapsed = Some False\<rparr>\<rparr>
              in s\<lparr>nodes := nodes s @ [newNode],
                   edges := edges s @ [(blank_edge u2 (node_id b) u1)
                              \<lparr>edge_type := Some ''smoothstep'', markerEnd := Some ArrowClosed\<rparr>],
                   selectedId := Some u1\<rparr>))"

text \<open>
  The inspector's button calls \<^verbatim>\<open>addChild(selectedNode.data.subject || 'Default')\<close>; it is
  shown only while a node is selected.
\<close>

definition addChildOfSelected :: "'n runtime \<Rightarrow> string \<Rightarrow> string \<Rightarrow> 'n \<Rightarrow> 'n state \<Rightarrow> 'n state" where
  "addChildOfSelected rt u1 u2 r s =
     (case selectedNode s of
        None \<Rightarrow> s
      | Some sel \<Rightarrow>
          addChild rt (case data_subject (node_data sel) of
                         None \<Rightarrow> ''Default''
                       | Some subject \<Rightarrow> if subject = [] then ''Default'' else subject)
            u1 u2 r s)"

section \<open>Waypoint topology\<close>

text \<open>
  \<^verbatim>\<open>splitEdgeToWaypoint(edgeId)\<close>: \<open>wpId\<close> is the id generated for the waypoint, \<open>u1\<close> and
  \<open>u2\<close> the ids of the two segments. Nothing happens when the edge is not found.
\<close>

definition splitEdgeToWaypoint ::
  "'n runtime \<Rightarrow> string \<Rightarrow> string \<Rightarrow> string \<Rightarrow> string \<Rightarrow> 'n state \<Rightarrow> 'n state" where
  "splitEdgeToWaypoint rt edgeId wpId u1 u2 s =
     (case find_edge edgeId (edges s) of
        None \<Rightarrow> s
      | Some e \<Rightarrow>
          (let srcNode = find_node (source e) (nodes s);
               tgtNode = find_node (target e) (nodes s);
               mid = (case srcNode of
                        None \<Rightarrow> \<lparr>pos_x = js_lit rt 100, pos_y = js_lit rt 100\<rparr>
                      | Some a \<Rightarrow>
                          (case tgtNode of
                             None \<Rightarrow> \<lparr>pos_x = js_lit rt 100, pos_y = js_lit rt 100\<rparr>
                           | Some b \<Rightarrow>
                               \<lparr>pos_x = js_add rt
                                          (js_div rt (js_add rt (pos_x (node_position a))
                                                                (pos_x (node_position b)))
                                             (js_lit rt 2))
                                          (js_lit rt 20),
                                pos_y = js_div rt (js_add rt (pos_y (node_position a))
                                                             (pos_y (node_position b)))
                                          (js_lit rt 2)\<rparr>));
               waypoint = waypoint_node wpId mid;
               newEdges = filter (\<lambda>x. edge_id x \<noteq> edgeId) (edges s) @
                 [(blank_edge u1 (source e) wpId)
                    \<lparr>edge_type := edge_type e, label := label e, style := style e,
                     markerEnd := markerEnd e, markerStart := markerStart e\<rparr>,
                  (blank_edge u2 wpId (target e))
                    \<lparr>edge_type := edge_type e, label := label e, style := style e,
                     markerEnd := markerEnd e, markerStart := markerStart e\<rparr>]
           in s\<lparr>nodes := nodes s @ [waypoint], edges := newEdges\<rparr>))"

text \<open>\<^verbatim>\<open>e.type || 'smoothstep'\<close> and \<^verbatim>\<open>e.style || {}\<close>.\<close>

definition type_or_smoothstep :: "string option \<Rightarrow> string option" where
  "type_or_smoothstep t = (if truthy t then t else Some ''smoothstep'')"

definition style_or_empty :: "'n style option \<Rightarrow> 'n style" where
  "style_or_empty st =
     (case st of
        None \<Rightarrow> \<lparr>stroke = None, strokeWidth = None, strokeDasharray = None\<rparr>
      | Some v \<Rightarrow> v)"

text \<open>
  \<^verbatim>\<open>insertWaypointAt(edgeId, position)\<close>: the waypoint node is appended first, then the
  edge is looked up and split; \<open>wpId\<close>, \<open>ua\<close> and \<open>ub\<close> are the generated ids.
\<close>

definition insertWaypointAt ::
  "string \<Rightarrow> 'n position \<Rightarrow> string \<Rightarrow> string \<Rightarrow> string \<Rightarrow> 'n state \<Rightarrow> 'n state" where
  "insertWaypointAt edgeId pos wpId ua ub s =
     (let waypoint = waypoint_node wpId pos;
          s1 = s\<lparr>nodes := nodes s @ [waypoint]\<rparr>
      in case find_edge edgeId (edges s1) of
           None \<Rightarrow> s1
         | Some e \<Rightarrow>
             (let others = filter (\<lambda>x. edge_id x \<noteq> edgeId) (edges s1);
                  st = style_or_empty (style e);
                  a = (blank_edge ua (source e) wpId)
                        \<lparr>edge_type := type_or_smoothstep (edge_type e), label := label e,
                         style := Some st, markerStart := markerStart e, markerEnd := None\<rparr>;
                  b = (blank_edge ub wpId (target e))
                        \<lparr>edge_type := type_or_smoothstep (edge_type e), label := None,
                         style := Some st, markerStart := None, markerEnd := markerEnd e\<rparr>
              in s1\<lparr>edges := others @ [a, b]\<rparr>))"

text \<open>
  The waypoint that \<^verbatim>\<open>removeWaypoint\<close> picks for the edge \<open>e\<close>: the first node of type
  \<^verbatim>\<open>waypoint\<close> with an edge to the target of \<open>e\<close>, or with an edge from the source of \<open>e\<close>.
\<close>

definition adjacent_waypoint :: "'n edge \<Rightarrow> 'n state \<Rightarrow> 'n node option" where
  "adjacent_waypoint e s =
     List.find (\<lambda>n. node_type n = ''waypoint'' \<and>
         (list_ex (\<lambda>ed. source ed = node_id n \<and> target ed = target e) (edges s) \<or>
          list_ex (\<lambda>ed. target ed = node_id n \<and> source ed = source e) (edges s)))
       (nodes s)"

text \<open>\<^verbatim>\<open>removeWaypoint(edgeId)\<close>; \<open>u\<close> is the id generated for the joined edge.\<close>

definition removeWaypoint :: "string \<Rightarrow> string \<Rightarrow> 'n state \<Rightarrow> 'n state" where
  "removeWaypoint edgeId u s =
     (case find_edge edgeId (edges s) of
        None \<Rightarrow> s
      | Some e \<Rightarrow>
          (case adjacent_waypoint e s of
             None \<Rightarrow> s
           | Some wp \<Rightarrow>
               (let before = List.find (\<lambda>x. target x = node_id wp) (edges s);
                    after = List.find (\<lambda>x. source x = node_id wp) (edges s);
                    others = filter (\<lambda>x. source x \<noteq> node_id wp \<and> target x \<noteq> node_id wp) (edges s);
                    newEdges =
                      (case before of
                         None \<Rightarrow> others
                       | Some b \<Rightarrow>
                           (case after of
                              None \<Rightarrow> others
                            | Some a \<Rightarrow>
                                others @
                                [(blank_edge u (source b) (target a))
                                   \<lparr>edge_type := edge_type b, label := label b, style := style b,
                                    markerEnd := markerEnd a\<rparr>]))
                in s\<lparr>nodes := filter (\<lambda>n. node_id n \<noteq> node_id wp) (nodes s),
                     edges := newEdges\<rparr>)))"

section \<open>Inspector edits and templates\<close>

text \<open>
  \<^verbatim>\<open>updateSelected(patch)\<close> spreads the patch over the data of the selected node; a
  property the patch does not have is \<open>None\<close> in the patch and keeps its value.
\<close>

definition spread_data :: "node_data \<Rightarrow> node_data \<Rightarrow> node_data" where
  "spread_data d patch =
     \<lparr>data_label = (case data_label patch of None \<Rightarrow> data_label d | Some v \<Rightarrow> Some v),
      data_subject = (case data_subject patch of None \<Rightarrow> data_subject d | Some v \<Rightarrow> Some v),
      data_color = (case data_color patch of None \<Rightarrow> data_color d | Some v \<Rightarrow> Some v),
      data_collapsed = (case data_collapsed patch of None \<Rightarrow> data_collapsed d | Some v \<Rightarrow> Some v)\<rparr>"

definition updateSelected :: "node_data \<Rightarrow> 'n state \<Rightarrow> 'n state" where
  "updateSelected patch s =
     s\<lparr>nodes := map (\<lambda>n. if Some (node_id n) = selectedId s
                            then n\<lparr>node_data := spread_data (node_data n) patch\<rparr> else n)
                  (nodes s)\<rparr>"

text \<open>
  The edits of the connection list: the label, the arrow heads, the stroke colour and the
  stroke width of the edge with the given id.
\<close>

definition setEdgeLabel :: "string \<Rightarrow> string \<Rightarrow> 'n state \<Rightarrow> 'n state" where
  "setEdgeLabel i v s =
     s\<lparr>edges := map (\<lambda>x. if edge_id x = i then x\<lparr>label := Some v\<rparr> else x) (edges s)\<rparr>"

definition setEdgeArrows :: "string \<Rightarrow> conn_type \<Rightarrow> 'n state \<Rightarrow> 'n state" where
  "setEdgeArrows i v s =
     s\<lparr>edges := map (\<lambda>x. if edge_id x = i
                            then x\<lparr>markerEnd := (if v \<noteq> NoArrow then Some ArrowClosed else None),
                                   markerStart := (if v = TwoWay then Some ArrowClosed else None)\<rparr>
                            else x) (edges s)\<rparr>"

definition setEdgeStroke :: "string \<Rightarrow> string \<Rightarrow> 'n state \<Rightarrow> 'n state" where
  "setEdgeStroke i c s =
     s\<lparr>edges := map (\<lambda>x. if edge_id x = i
                            then x\<lparr>style := Some ((style_or_empty (style x))\<lparr>stroke := Some c\<rparr>)\<rparr>
                            else x) (edges s)\<rparr>"

definition setEdgeStrokeWidth :: "string \<Rightarrow> 'n \<Rightarrow> 'n state \<Rightarrow> 'n state" where
  "setEdgeStrokeWidth i w s =
     s\<lparr>edges := map (\<lambda>x. if edge_id x = i
                            then x\<lparr>style := Some ((style_or_empty (style x))\<lparr>strokeWidth := Some w\<rparr>)\<rparr>
                            else x) (edges s)\<rparr>"

text \<open>
  The auto-arrange button packs the nodes into a grid with
  \<^verbatim>\<open>Math.ceil(Math.sqrt(nodes.length || 1))\<close> nodes in a row. The count is a natural number
  and the row length is computed on natural numbers; the coordinates are computed by the
  runtime from the column and the row.
\<close>

definition ceil_sqrt :: "nat \<Rightarrow> nat" where
  "ceil_sqrt n = (case List.find (\<lambda>k. n \<le> k * k) [0 ..< Suc n] of None \<Rightarrow> n | Some k \<Rightarrow> k)"

definition autoArrange :: "'n runtime \<Rightarrow> 'n state \<Rightarrow> 'n state" where
  "autoArrange rt s =
     (let perRow = ceil_sqrt (if length (nodes s) = 0 then 1 else length (nodes s));
          arranged = map (\<lambda>(idx, n).
                        n\<lparr>node_position :=
                            \<lparr>pos_x = js_add rt (js_lit rt 80)
                                      (js_mul rt (js_lit rt (int (idx mod perRow))) (js_lit rt 200)),
                             pos_y = js_add rt (js_lit rt 80)
                                      (js_mul rt (js_lit rt (int (idx div perRow))) (js_lit rt 160))\<rparr>\<rparr>)
                       (zip [0 ..< length (nodes s)] (nodes s))
      in s\<lparr>nodes := arranged\<rparr>)"

definition template_node :: "string \<Rightarrow> 'n \<Rightarrow> 'n \<Rightarrow> string \<Rightarrow> string \<Rightarrow> string \<Rightarrow> 'n node" where
  "template_node i px py l subj col =
     \<lparr>node_id = i, node_type = ''study'', node_position = \<lparr>pos_x = px, pos_y = py\<rparr>,
      node_data = \<lparr>data_label = Some l, data_subject = Some subj,
                   data_color = Some (ColorString col), data_collapsed = None\<rparr>\<rparr>"

definition template_edge :: "string \<Rightarrow> string \<Rightarrow> string \<Rightarrow> 'n edge" where
  "template_edge i s t =
     (blank_edge i s t)\<lparr>edge_type := Some ''smoothstep'', markerEnd := Some ArrowClosed\<rparr>"

text \<open>
  \<^verbatim>\<open>applyTemplate(type)\<close>. The exam template has fixed edge ids; the research template
  generates four, the planner template three (\<open>u1\<close> to \<open>u4\<close>, in call order). Any other
  type changes nothing.
\<close>

definition applyTemplate ::
  "'n runtime \<Rightarrow> string \<Rightarrow> string \<Rightarrow> string \<Rightarrow> string \<Rightarrow> string \<Rightarrow> 'n state \<Rightarrow> 'n state" where
  "applyTemplate rt ty u1 u2 u3 u4 s =
     (if ty = ''exam'' then
        s\<lparr>nodes := [template_node ''1'' (js_lit rt 250) (js_lit rt 80) ''Exam Prep'' ''Default''
                      SUBJECTS_Default,
                    template_node ''2'' (js_lit rt 60) (js_lit rt 260) ''Math'' ''Math''
                      SUBJECTS_Math,
                    template_node ''3'' (js_lit rt 250) (js_lit rt 260) ''Science'' ''Science''
                      SUBJECTS_Science,
                    template_node ''4'' (js_lit rt 440) (js_lit rt 260) ''History'' ''History''
                      SUBJECTS_History],
          edges := [template_edge ''e1-2'' ''1'' ''2'', template_edge ''e1-3'' ''1'' ''3'',
                    template_edge ''e1-4'' ''1'' ''4''],
          selectedId := Some ''1'', collapsed := []\<rparr>
      else if ty = ''research'' then
        (let ids = [''root'', ''i'', ''m'', ''r'', ''c''];
             labels = [''Research Paper'', ''Introduction'', ''Method'', ''Results'', ''Conclusion''];
             base = map (\<lambda>(idx, i, l).
                        template_node i
                          (js_add rt (js_lit rt 140) (js_mul rt (js_lit rt (int idx)) (js_lit rt 160)))
                          (if idx \<noteq> 0 then js_lit rt 260 else js_lit rt 90)
                          l ''Default'' SUBJECTS_Default)
                      (zip [0 ..< 5] (zip ids labels))
         in s\<lparr>nodes := base,
              edges := map (\<lambda>(n, u). template_edge u (hd ids) (node_id n))
                         (zip (tl base) [u1, u2, u3, u4]),
              selectedId := Some (hd ids), collapsed := []\<rparr>)
      else if ty = ''planner'' then
        s\<lparr>nodes := [template_node ''root'' (js_lit rt 250) (js_lit rt 90) ''Today'' ''Default''
                      SUBJECTS_Default,
                    template_node ''m'' (js_lit rt 80) (js_lit rt 250) ''Morning'' ''Default''
                      ''#6c8cff'',
                    template_node ''n'' (js_lit rt 250) (js_lit rt 250) ''Afternoon'' ''Default''
                      ''#64d2b4'',
                    template_node ''e'' (js_lit rt 420) (js_lit rt 250) ''Evening'' ''Default''
                      ''#ff9e6e''],
          edges := [template_edge u1 ''root'' ''m'', template_edge u2 ''root'' ''n'',
                    template_edge u3 ''root'' ''e''],
          selectedId := Some ''root'', collapsed := []\<rparr>
      else s)"

section \<open>Snapshots: export, import, autosave and the mount effect\<close>

text \<open>
  The object that is handed to \<^verbatim>\<open>JSON.stringify\<close> and obtained from \<^verbatim>\<open>JSON.parse\<close>. A key
  of an imported object whose value is missing or falsy is \<open>None\<close>; where it is present,
  \<^verbatim>\<open>nodes\<close> is an array of nodes and \<^verbatim>\<open>edges\<close> an array of edges. The value under
  \<^verbatim>\<open>collapsed\<close> is falsy, or an iterable of strings (an array, or a string), or a truthy
  value that cannot be iterated (a number, an object, \<^verbatim>\<open>true\<close>), on which \<^verbatim>\<open>new Set\<close>
  throws.
\<close>

datatype collapsed_json = CollapsedFalsy | CollapsedIterable "string list" | CollapsedNotIterable

record 'n snapshot =
  snap_nodes :: "'n node list option"
  snap_edges :: "'n edge list option"
  snap_collapsed :: collapsed_json

text \<open>
  A JSON text is identified with what \<^verbatim>\<open>JSON.parse\<close> makes of it: \<open>NotJson\<close> is a text that
  \<^verbatim>\<open>JSON.parse\<close> rejects, or the text \<^verbatim>\<open>null\<close>, of which no key can be read; both end in the
  \<^verbatim>\<open>catch\<close> of the caller.
\<close>

datatype 'n json_text = NotJson | Json "'n snapshot"

definition JSON_parse :: "'n json_text \<Rightarrow> 'n snapshot option" where
  "JSON_parse t = (case t of NotJson \<Rightarrow> None | Json v \<Rightarrow> Some v)"

text \<open>
  What \<^verbatim>\<open>JSON.stringify\<close> writes, read as the value that \<^verbatim>\<open>JSON.parse\<close> makes of it, following
  the language standard: a property whose value is \<^verbatim>\<open>undefined\<close> or a function is left
  out; an object without own enumerable properties, such as \<^verbatim>\<open>Object.prototype\<close>, is written
  as \<^verbatim>\<open>{}\<close>; strings, booleans, arrays and the other objects are written and read back
  property by property; a value of a numeric property is read back as \<open>js_reread\<close> says.
\<close>

definition json_color :: "color \<Rightarrow> color option" where
  "json_color c =
     (case c of
        ColorString v \<Rightarrow> Some (ColorString v)
      | Inherited k \<Rightarrow> if k = ''__proto__'' then Some EmptyObject else None
      | EmptyObject \<Rightarrow> Some EmptyObject)"

definition json_data :: "node_data \<Rightarrow> node_data" where
  "json_data d =
     d\<lparr>data_color := (case data_color d of None \<Rightarrow> None | Some c \<Rightarrow> json_color c)\<rparr>"

definition json_node :: "'n runtime \<Rightarrow> 'n node \<Rightarrow> 'n node" where
  "json_node rt n =
     n\<lparr>node_position := \<lparr>pos_x = js_reread rt (pos_x (node_position n)),
                          pos_y = js_reread rt (pos_y (node_position n))\<rparr>,
       node_data := json_data (node_data n)\<rparr>"

definition json_style :: "'n runtime \<Rightarrow> 'n style \<Rightarrow> 'n style" where
  "json_style rt st = st\<lparr>strokeWidth := map_option (js_reread rt) (strokeWidth st)\<rparr>"

definition json_edge :: "'n runtime \<Rightarrow> 'n edge \<Rightarrow> 'n edge" where
  "json_edge rt e = e\<lparr>style := map_option (json_style rt) (style e)\<rparr>"

definition JSON_stringify :: "'n runtime \<Rightarrow> 'n snapshot \<Rightarrow> 'n json_text" where
  "JSON_stringify rt v =
     Json \<lparr>snap_nodes = map_option (map (json_node rt)) (snap_nodes v),
           snap_edges = map_option (map (json_edge rt)) (snap_edges v),
           snap_collapsed = snap_collapsed v\<rparr>"

text \<open>\<^verbatim>\<open>Array.from(set)\<close> and \<^verbatim>\<open>new Set(array)\<close>; the latter keeps the first occurrence of an id.\<close>

definition Array_from :: "string list \<Rightarrow> string list" where
  "Array_from c = c"

fun new_Set :: "string list \<Rightarrow> string list" where
  "new_Set [] = []"
| "new_Set (x # xs) = x # new_Set (filter (\<lambda>y. y \<noteq> x) xs)"

definition current_snapshot :: "'n state \<Rightarrow> 'n snapshot" where
  "current_snapshot s =
     \<lparr>snap_nodes = Some (nodes s), snap_edges = Some (edges s),
      snap_collapsed = CollapsedIterable (Array_from (collapsed s))\<rparr>"

text \<open>The text that \<^verbatim>\<open>exportJSON\<close> offers for download.\<close>

definition exportJSON :: "'n runtime \<Rightarrow> 'n state \<Rightarrow> 'n json_text" where
  "exportJSON rt s = JSON_stringify rt (current_snapshot s)"

text \<open>
  The autosave effect stores the same text under \<^verbatim>\<open>smp_map_v2\<close> after every change of
  nodes, edges or collapsed set; \<open>None\<close> is a storage without that item.
\<close>

definition autosave :: "'n runtime \<Rightarrow> 'n state \<Rightarrow> 'n json_text option" where
  "autosave rt s = Some (JSON_stringify rt (current_snapshot s))"

text \<open>\<^verbatim>\<open>parsed.nodes || []\<close>: an array is truthy, a missing key is not.\<close>

definition or_empty :: "'a list option \<Rightarrow> 'a list" where
  "or_empty v = (case v of None \<Rightarrow> [] | Some xs \<Rightarrow> xs)"

text \<open>
  \<^verbatim>\<open>importJSON\<close>, from the text the file reader delivers. The result pairs the new state
  with whether \<^verbatim>\<open>alert('Invalid JSON')\<close> was raised. Nodes and edges are set before
  \<^verbatim>\<open>new Set\<close> is evaluated, so when that throws the alert comes with nodes and edges
  replaced and the collapsed set kept.
\<close>

definition importJSON :: "'n json_text \<Rightarrow> 'n state \<Rightarrow> 'n state \<times> bool" where
  "importJSON content s =
     (case JSON_parse content of
        None \<Rightarrow> (s, True)
      | Some parsed \<Rightarrow>
          (let s1 = s\<lparr>nodes := or_empty (snap_nodes parsed), edges := or_empty (snap_edges parsed)\<rparr>
           in case snap_collapsed parsed of
                CollapsedFalsy \<Rightarrow> (s1\<lparr>collapsed := new_Set []\<rparr>, False)
              | CollapsedIterable ids \<Rightarrow> (s1\<lparr>collapsed := new_Set ids\<rparr>, False)
              | CollapsedNotIterable \<Rightarrow> (s1, True)))"

text \<open>
  The effect that runs once after the first render. Without a stored item, or with one
  that cannot be parsed, nothing happens. Otherwise \<^verbatim>\<open>nodes\<close> and \<^verbatim>\<open>edges\<close> of the parsed
  object are installed as they are, without a default: when one of them is missing the
  state holds \<^verbatim>\<open>undefined\<close> and the next render throws, which is the result \<open>None\<close>. An
  exception of \<^verbatim>\<open>new Set\<close> is swallowed after nodes and edges have been set.
\<close>

definition mountEffect :: "'n json_text option \<Rightarrow> 'n state \<Rightarrow> 'n state option" where
  "mountEffect saved s =
     (case saved of
        None \<Rightarrow> Some s
      | Some content \<Rightarrow>
          (case JSON_parse content of
             None \<Rightarrow> Some s
           | Some parsed \<Rightarrow>
               (case snap_nodes parsed of
                  None \<Rightarrow> None
                | Some ns \<Rightarrow>
                    (case snap_edges parsed of
                       None \<Rightarrow> None
                     | Some es \<Rightarrow>
                         (let s1 = s\<lparr>nodes := ns, edges := es\<rparr>
                          in case snap_collapsed parsed of
                               CollapsedFalsy \<Rightarrow> Some (s1\<lparr>collapsed := new_Set []\<rparr>)
                             | CollapsedIterable ids \<Rightarrow> Some (s1\<lparr>collapsed := new_Set ids\<rparr>)
                             | CollapsedNotIterable \<Rightarrow> Some s1)))))"

text \<open>
  The values that JSON writes and reads back unchanged: a number that \<open>js_reread\<close> leaves
  as it is, and a colour that is missing, a string or an empty object.
\<close>

definition number_safe :: "'n runtime \<Rightarrow> 'n \<Rightarrow> bool" where
  "number_safe rt v = (js_reread rt v = v)"

definition color_safe :: "color option \<Rightarrow> bool" where
  "color_safe c =
     (case c of
        None \<Rightarrow> True
      | Some (ColorString v) \<Rightarrow> True
      | Some (Inherited k) \<Rightarrow> False
      | Some EmptyObject \<Rightarrow> True)"

definition node_safe :: "'n runtime \<Rightarrow> 'n node \<Rightarrow> bool" where
  "node_safe rt n =
     (number_safe rt (pos_x (node_position n)) \<and> number_safe rt (pos_y (node_position n)) \<and>
      color_safe (data_color (node_data n)))"

definition edge_safe :: "'n runtime \<Rightarrow> 'n edge \<Rightarrow> bool" where
  "edge_safe rt e =
     (case style e of
        None \<Rightarrow> True
      | Some st \<Rightarrow> (case strokeWidth st of None \<Rightarrow> True | Some w \<Rightarrow> number_safe rt w))"

definition json_safe :: "'n runtime \<Rightarrow> 'n state \<Rightarrow> bool" where
  "json_safe rt s = (list_all (node_safe rt) (nodes s) \<and> list_all (edge_safe rt) (edges s))"

section \<open>Gestures and sessions\<close>

text \<open>
  One constructor for each gesture that changes the graph or the selection, with the
  values the handler receives and the ids and random numbers it generates. An import
  carries the text of the chosen file. A change reported by the rendering library
  carries what the library's function makes of the current list.
\<close>

datatype 'n event =
    EvCreateNodeBox string 'n 'n
  | EvCreateNodeBoxAt string "'n position"
  | EvCreateInfoNodeAt string "'n position"
  | EvConnect string string string string string string 'n 'n
  | EvSelectTool tool
  | EvSetConnType conn_type
  | EvSetConnLabel string
  | EvSetConnColor string
  | EvSetConnWidth 'n
  | EvSetConnLabelBg bool
  | EvSetConnLabelBgColor string
  | EvSetConnLabelTextColor string
  | EvSelectionChange "'n node list" "'n edge list"
  | EvKeyDelete
  | EvAddChild string string string 'n
  | EvAddChildOfSelected string string 'n
  | EvDeleteSelected
  | EvDeleteSelectedEdge
  | EvDeleteEdge string
  | EvSplitEdge string string string string
  | EvInsertWaypoint string "'n position" string string string
  | EvRemoveWaypoint string string
  | EvUpdateSelected node_data
  | EvSetEdgeLabel string string
  | EvSetEdgeArrows string conn_type
  | EvSetEdgeStroke string string
  | EvSetEdgeStrokeWidth string 'n
  | EvAutoArrange
  | EvToggleCollapse string
  | EvApplyTemplate string string string string string
  | EvImport "'n json_text"
  | EvNodesChange "'n node list \<Rightarrow> 'n node list"
  | EvEdgesChange "'n edge list \<Rightarrow> 'n edge list"

fun step :: "'n runtime \<Rightarrow> 'n event \<Rightarrow> 'n state \<Rightarrow> 'n state" where
  "step rt (EvCreateNodeBox i r1 r2) s = createNodeBox rt i r1 r2 s"
| "step rt (EvCreateNodeBoxAt i pos) s = createNodeBoxAt i pos s"
| "step rt (EvCreateInfoNodeAt i pos) s = createInfoNodeAt i pos s"
| "step rt (EvConnect src tgt u1 u2 u3 u4 r1 r2) s = onConnect rt src tgt u1 u2 u3 u4 r1 r2 s"
| "step rt (EvSelectTool t) s = selectTool t s"
| "step rt (EvSetConnType c) s = setConnType c s"
| "step rt (EvSetConnLabel l) s = setConnLabel l s"
| "step rt (EvSetConnColor c) s = setConnColor c s"
| "step rt (EvSetConnWidth w) s = setConnWidth w s"
| "step rt (EvSetConnLabelBg b) s = setConnLabelBg b s"
| "step rt (EvSetConnLabelBgColor c) s = setConnLabelBgColor c s"
| "step rt (EvSetConnLabelTextColor c) s = setConnLabelTextColor c s"
| "step rt (EvSelectionChange ns es) s = onSelectionChange ns es s"
| "step rt EvKeyDelete s = onKey_Delete s"
| "step rt (EvAddChild subject u1 u2 r) s = addChild rt subject u1 u2 r s"
| "step rt (EvAddChildOfSelected u1 u2 r) s = addChildOfSelected rt u1 u2 r s"
| "step rt EvDeleteSelected s = deleteSelected s"
| "step rt EvDeleteSelectedEdge s = deleteSelectedEdge s"
| "step rt (EvDeleteEdge i) s = deleteEdge i s"
| "step rt (EvSplitEdge edgeId wpId u1 u2) s = splitEdgeToWaypoint rt edgeId wpId u1 u2 s"
| "step rt (EvInsertWaypoint edgeId pos wpId ua ub) s = insertWaypointAt edgeId pos wpId ua ub s"
| "step rt (EvRemoveWaypoint edgeId u) s = removeWaypoint edgeId u s"
| "step rt (EvUpdateSelected patch) s = updateSelected patch s"
| "step rt (EvSetEdgeLabel i v) s = setEdgeLabel i v s"
| "step rt (EvSetEdgeArrows i v) s = setEdgeArrows i v s"
| "step rt (EvSetEdgeStroke i c) s = setEdgeStroke i c s"
| "step rt (EvSetEdgeStrokeWidth i w) s = setEdgeStrokeWidth i w s"
| "step rt EvAutoArrange s = autoArrange rt s"
| "step rt (EvToggleCollapse i) s = onToggleCollapse i s"
| "step rt (EvApplyTemplate ty u1 u2 u3 u4) s = applyTemplate rt ty u1 u2 u3 u4 s"
| "step rt (EvImport content) s = fst (importJSON content s)"
| "step rt (EvNodesChange applied) s = onNodesChange (\<lambda>changes. changes) applied s"
| "step rt (EvEdgesChange applied) s = onEdgesChange (\<lambda>changes. changes) applied s"

fun run :: "'n runtime \<Rightarrow> 'n event list \<Rightarrow> 'n state \<Rightarrow> 'n state" where
  "run rt [] s = s"
| "run rt (ev # evs) s = run rt evs (step rt ev s)"

text \<open>The generated ids that a gesture gives to new nodes.\<close>

fun node_uuids :: "'n event \<Rightarrow> string list" where
  "node_uuids (EvCreateNodeBox i r1 r2) = [i]"
| "node_uuids (EvCreateNodeBoxAt i pos) = [i]"
| "node_uuids (EvCreateInfoNodeAt i pos) = [i]"
| "node_uuids (EvConnect src tgt u1 u2 u3 u4 r1 r2) = [u2]"
| "node_uuids (EvAddChild subject u1 u2 r) = [u1]"
| "node_uuids (EvAddChildOfSelected u1 u2 r) = [u1]"
| "node_uuids (EvSplitEdge edgeId wpId u1 u2) = [wpId]"
| "node_uuids (EvInsertWaypoint edgeId pos wpId ua ub) = [wpId]"
| "node_uuids _ = []"

definition root_count :: "'n state \<Rightarrow> nat" where
  "root_count s = length (filter (\<lambda>n. node_id n = ''root'') (nodes s))"

text \<open>
  A node list that is in order with respect to the reserved id: one node carries it, and
  no node that carries it is a waypoint (\<^verbatim>\<open>removeWaypoint\<close> deletes waypoints only).
\<close>

definition root_ok :: "'n node list \<Rightarrow> bool" where
  "root_ok nds = (length (filter (\<lambda>n. node_id n = ''root'') nds) = 1 \<and>
     list_all (\<lambda>n. node_id n \<noteq> ''root'' \<or> node_type n \<noteq> ''waypoint'') nds)"

text \<open>A file or stored item that is rejected, or whose node list is in order.\<close>

definition file_keeps_root :: "'n json_text \<Rightarrow> bool" where
  "file_keeps_root content =
     (case JSON_parse content of None \<Rightarrow> True | Some parsed \<Rightarrow> root_ok (or_empty (snap_nodes parsed)))"

text \<open>
  The gestures that do not disturb the reserved id in the state they meet: no generated
  node id is \<^verbatim>\<open>root\<close>, the template is not the exam template, an imported file is rejected
  or has a node list that is in order, and the list the rendering library hands back is
  in order.
\<close>

fun keeps_root :: "'n event \<Rightarrow> 'n state \<Rightarrow> bool" where
  "keeps_root (EvApplyTemplate ty u1 u2 u3 u4) s = (ty \<noteq> ''exam'')"
| "keeps_root (EvImport content) s = file_keeps_root content"
| "keeps_root (EvNodesChange applied) s = root_ok (applied (nodes s))"
| "keeps_root ev s = (''root'' \<notin> set (node_uuids ev))"

fun session_keeps_root :: "'n runtime \<Rightarrow> 'n event list \<Rightarrow> 'n state \<Rightarrow> bool" where
  "session_keeps_root rt [] s = True"
| "session_keeps_root rt (ev # evs) s = (keeps_root ev s \<and> session_keeps_root rt evs (step rt ev s))"

section \<open>Example sessions\<close>

text \<open>
  The sessions below start without a stored map and run on \<open>exact_runtime\<close>; the numbers
  in them are integers below a thousand and the random number one half.

  The editor after adding a child \<open>A\<close> to \<^verbatim>\<open>root\<close> and collapsing \<^verbatim>\<open>root\<close>: two nodes, the
  edge from \<^verbatim>\<open>root\<close> to \<open>A\<close>, and \<^verbatim>\<open>root\<close> in the collapsed set.
\<close>

definition example_root_A :: "rat state" where
  "example_root_A =
     onToggleCollapse ''root''
       (addChild exact_runtime ''Math'' ''A'' ''e1'' (1/2) (initial_state exact_runtime))"

text \<open>
  A chain: \<open>A\<close> is added under \<^verbatim>\<open>root\<close> and becomes the selected node, \<open>C\<close> is added under
  \<open>A\<close>. In the first session \<^verbatim>\<open>root\<close> is then collapsed, in the second \<open>A\<close>.
\<close>

definition chain_root_collapsed :: "rat state" where
  "chain_root_collapsed =
     run exact_runtime
       [EvAddChild ''Math'' ''A'' ''e1'' (1/2), EvAddChild ''Math'' ''C'' ''e2'' (1/2),
        EvToggleCollapse ''root''] (initial_state exact_runtime)"

definition chain_A_collapsed :: "rat state" where
  "chain_A_collapsed =
     run exact_runtime
       [EvAddChild ''Math'' ''A'' ''e1'' (1/2), EvAddChild ''Math'' ''C'' ''e2'' (1/2),
        EvToggleCollapse ''A''] (initial_state exact_runtime)"

text \<open>
  A child is added and its edge is clicked; a second child is added from the toolbar and
  deleted again in the inspector. The inspector then shows \<^verbatim>\<open>root\<close> as the selected node
  while the clicked edge is still the selected edge.
\<close>

definition root_and_edge_selected :: "rat state" where
  "root_and_edge_selected =
     run exact_runtime
       [EvAddChild ''Math'' ''n1'' ''e1'' (1/2),
        EvSelectionChange [] [blank_edge ''e1'' ''root'' ''n1''],
        EvAddChild ''Science'' ''n2'' ''e2'' (1/2),
        EvDeleteSelected] (initial_state exact_runtime)"

text \<open>
  A child \<open>A\<close> is added, the informational tool is chosen, and the pending arrow mode and
  label are then set in the connections panel.
\<close>

definition informational_session :: "rat state" where
  "informational_session =
     run exact_runtime
       [EvAddChild ''Math'' ''A'' ''e1'' (1/2), EvSelectTool ToolInformational,
        EvSetConnType TwoWay, EvSetConnLabel ''causes''] (initial_state exact_runtime)"

text \<open>
  Two children \<open>A\<close> and \<open>B\<close> of \<^verbatim>\<open>root\<close>; the edge to \<open>B\<close> is already bent through the
  waypoint \<open>w0\<close>, the edge \<open>e1\<close> to \<open>A\<close> is still direct.
\<close>

definition two_bent_edges :: "rat state" where
  "two_bent_edges =
     run exact_runtime
       [EvAddChild ''Math'' ''A'' ''e1'' (1/2),
        EvSelectionChange [root_node exact_runtime] [],
        EvAddChild ''Science'' ''B'' ''e2'' (1/2),
        EvSplitEdge ''e2'' ''w0'' ''a0'' ''b0''] (initial_state exact_runtime)"

text \<open>The edge to \<open>A\<close> is bent through \<open>w1\<close> and its second segment is then deleted.\<close>

definition dangling_waypoint :: "rat state" where
  "dangling_waypoint =
     run exact_runtime
       [EvAddChild ''Math'' ''A'' ''e1'' (1/2),
        EvSplitEdge ''e1'' ''w1'' ''a1'' ''b1'',
        EvDeleteEdge ''b1''] (initial_state exact_runtime)"

text \<open>A graph with a waypoint-bent edge and a collapsed node.\<close>

definition bent_edge_graph :: "rat state" where
  "bent_edge_graph =
     run exact_runtime
       [EvAddChild ''Math'' ''A'' ''e1'' (1/2),
        EvInsertWaypoint ''e1'' \<lparr>pos_x = 300, pos_y = 40\<rparr> ''w1'' ''a1'' ''b1'',
        EvToggleCollapse ''A''] (initial_state exact_runtime)"

text \<open>
  A file whose only node is a \<^verbatim>\<open>root\<close> with the subject \<^verbatim>\<open>constructor\<close> is imported, and the
  inspector's button adds a child to the selected \<^verbatim>\<open>root\<close>: the palette lookup for the
  child finds the inherited property.
\<close>

definition constructor_file :: "rat json_text" where
  "constructor_file =
     Json \<lparr>snap_nodes =
             Some [(root_node exact_runtime)
                     \<lparr>node_data := (node_data (root_node exact_runtime))
                                     \<lparr>data_subject := Some ''constructor''\<rparr>\<rparr>],
           snap_edges = Some [], snap_collapsed = CollapsedIterable []\<rparr>"

definition inherited_colour_graph :: "rat state" where
  "inherited_colour_graph =
     run exact_runtime
       [EvImport constructor_file, EvAddChildOfSelected ''n1'' ''e1'' (1/2)]
       (initial_state exact_runtime)"

text \<open>The item that the autosave effect stores once the exam template has been applied.\<close>

definition stored_exam_map :: "rat json_text option" where
  "stored_exam_map =
     autosave exact_runtime
       (applyTemplate exact_runtime ''exam'' ''u1'' ''u2'' ''u3'' ''u4'' (initial_state exact_runtime))"

lemmas handler_defs = exact_runtime_def initial_state_def root_node_def addChild_def
  addChildOfSelected_def onSelectionChange_def
  selectTool_def setConnType_def setConnLabel_def splitEdgeToWaypoint_def deleteEdge_def
  insertWaypointAt_def onToggleCollapse_def selectedNode_def find_node_def find_edge_def
  blank_edge_def waypoint_node_def subject_color_def SUBJECTS_def SUBJECTS_Default_def
  SUBJECTS_Math_def SUBJECTS_Science_def SUBJECTS_History_def Object_prototype_keys_def
  type_or_smoothstep_def style_or_empty_def truthy_def Let_def

section \<open>Properties of the traversal\<close>

lemma forEach_edges_fst_set:
  "set (fst (forEach_edges src es (hidden, queue))) = set hidden \<union> edge_rel es `` {src}"
  by (induction es arbitrary: hidden queue) (auto simp: edge_rel_def)

text \<open>The result stays inside every set that holds the hidden ids and is closed under the edges.\<close>

lemma bfs_loop_upper:
  "edge_rel eds `` (set queue \<union> S) \<subseteq> S \<Longrightarrow> set hidden \<subseteq> S \<Longrightarrow> set (bfs_loop eds queue hidden) \<subseteq> S"
proof (induction eds queue hidden rule: bfs_loop.induct)
  case (1 eds hidden)
  then show ?case by simp
next
  case (2 eds src queue hidden)
  obtain new where n: "forEach_edges src eds (hidden, queue) = (hidden @ new, queue @ new)"
    using forEach_edges_shape by blast
  have "set (hidden @ new) = set hidden \<union> edge_rel eds `` {src}"
    using forEach_edges_fst_set [of src eds hidden queue] n by simp
  then have new: "set new \<subseteq> S" using "2.prems" by auto
  have "set (bfs_loop eds (queue @ new) (hidden @ new)) \<subseteq> S"
  proof (rule "2.IH" [OF n [symmetric]])
    show "edge_rel eds `` (set (queue @ new) \<union> S) \<subseteq> S" using "2.prems"(1) new by auto
    show "set (hidden @ new) \<subseteq> S" using "2.prems"(2) new by simp
  qed
  then show ?case using n by simp
qed

text \<open>
  An id that has left the queue has all its successors hidden; when the queue is empty
  the hidden set is closed under the edges.
\<close>

lemma bfs_loop_lower:
  "(\<And>x. x \<in> A \<union> set hidden \<Longrightarrow> x \<in> set queue \<or> edge_rel eds `` {x} \<subseteq> set hidden) \<Longrightarrow>
   set hidden \<subseteq> set (bfs_loop eds queue hidden) \<and>
   edge_rel eds `` (A \<union> set (bfs_loop eds queue hidden)) \<subseteq> set (bfs_loop eds queue hidden)"
proof (induction eds queue hidden rule: bfs_loop.induct)
  case (1 eds hidden)
  then show ?case by auto
next
  case (2 eds src queue hidden)
  obtain new where n: "forEach_edges src eds (hidden, queue) = (hidden @ new, queue @ new)"
    using forEach_edges_shape by blast
  have hn: "set (hidden @ new) = set hidden \<union> edge_rel eds `` {src}"
    using forEach_edges_fst_set [of src eds hidden queue] n by simp
  have inv: "x \<in> set (queue @ new) \<or> edge_rel eds `` {x} \<subseteq> set (hidden @ new)"
    if "x \<in> A \<union> set (hidden @ new)" for x
  proof (cases "x \<in> A \<union> set hidden")
    case True
    from "2.prems" [OF True] show ?thesis using hn by auto
  next
    case False
    with that show ?thesis by auto
  qed
  from "2.IH" [OF n [symmetric] inv]
  show ?case using n by auto
qed

text \<open>The hidden set is what the collapsed ids reach in one or more steps.\<close>

lemma computeHiddenTargets_reach:
  "set (computeHiddenTargets collapsedIds eds) = (edge_rel eds)\<^sup>+ `` set collapsedIds"
proof
  let ?R = "edge_rel eds" and ?H = "set (computeHiddenTargets collapsedIds eds)"
  have "?R `` (set collapsedIds \<union> ?R\<^sup>+ `` set collapsedIds) \<subseteq> ?R\<^sup>+ `` set collapsedIds"
    by (auto intro: trancl_into_trancl)
  then show "?H \<subseteq> ?R\<^sup>+ `` set collapsedIds"
    unfolding computeHiddenTargets_def using bfs_loop_upper [of eds collapsedIds _ "[]"] by simp
  have cl: "?R `` (set collapsedIds \<union> ?H) \<subseteq> ?H"
    unfolding computeHiddenTargets_def
    using bfs_loop_lower [of "set collapsedIds" "[]" collapsedIds eds] by simp
  show "?R\<^sup>+ `` set collapsedIds \<subseteq> ?H"
  proof
    fix y assume "y \<in> ?R\<^sup>+ `` set collapsedIds"
    then obtain x where x: "x \<in> set collapsedIds" "(x, y) \<in> ?R\<^sup>+" by auto
    from x(2) show "y \<in> ?H"
    proof (induction rule: trancl_induct)
      case (base y)
      then show ?case using cl x(1) by auto
    next
      case (step y z)
      then show ?case using cl by auto
    qed
  qed
qed

lemma bfs_loop_distinct: "distinct hidden \<Longrightarrow> distinct (bfs_loop eds queue hidden)"
proof (induction eds queue hidden rule: bfs_loop.induct)
  case (1 eds hidden)
  then show ?case by simp
next
  case (2 eds src queue hidden)
  obtain new where n: "forEach_edges src eds (hidden, queue) = (hidden @ new, queue @ new)"
    "distinct new" "set new \<inter> set hidden = {}"
    using forEach_edges_shape by blast
  have "distinct (hidden @ new)" using n "2.prems" by auto
  from "2.IH" [OF n(1) [symmetric] this] show ?case using n(1) by simp
qed

text \<open>The hidden list only grows, by exactly the ids that are pushed.\<close>

lemma bfs_trace_eq:
  "\<exists>rest. bfs_loop eds queue hidden = hidden @ rest \<and>
     bfs_trace eds queue hidden = (hidden @ rest, queue @ rest, rest)"
proof (induction eds queue hidden rule: bfs_loop.induct)
  case (1 eds hidden)
  then show ?case by simp
next
  case (2 eds src queue hidden)
  obtain new where n: "forEach_edges src eds (hidden, queue) = (hidden @ new, queue @ new)"
    using forEach_edges_shape by blast
  from "2.IH" [OF n [symmetric]] obtain rest where
    r: "bfs_loop eds (queue @ new) (hidden @ new) = (hidden @ new) @ rest"
       "bfs_trace eds (queue @ new) (hidden @ new) = ((hidden @ new) @ rest, (queue @ new) @ rest, rest)"
    by blast
  show ?case
    apply (rule exI [of _ "new @ rest"])
    using n r by simp
qed

lemma trace_ids:
  "pushed_ids collapsedIds eds = computeHiddenTargets collapsedIds eds \<and>
   shifted_ids collapsedIds eds = collapsedIds @ computeHiddenTargets collapsedIds eds"
  using bfs_trace_eq [of eds collapsedIds "[]"]
  by (auto simp: pushed_ids_def shifted_ids_def computeHiddenTargets_def)

lemma computeHiddenTargets_distinct: "distinct (computeHiddenTargets collapsedIds eds)"
  unfolding computeHiddenTargets_def by (rule bfs_loop_distinct) simp

lemma computeHiddenTargets_length: "length (computeHiddenTargets collapsedIds eds) \<le> length eds"
proof -
  let ?H = "computeHiddenTargets collapsedIds eds"
  have "set ?H \<subseteq> target ` set eds"
    unfolding computeHiddenTargets_def
    by (rule bfs_loop_upper) (auto simp: edge_rel_def)
  then have "card (set ?H) \<le> card (target ` set eds)" by (simp add: card_mono)
  also have "\<dots> \<le> length eds" by (metis card_image_le card_length le_trans List.finite_set)
  finally show ?thesis
    using computeHiddenTargets_distinct [of collapsedIds eds] by (simp add: distinct_card)
qed

section \<open>The reserved id through a session\<close>

lemma root_ok_append: "root_ok nds \<Longrightarrow> node_id n \<noteq> ''root'' \<Longrightarrow> root_ok (nds @ [n])"
  by (simp add: root_ok_def)

lemma filter_root_filter:
  "i \<noteq> r \<Longrightarrow> filter (\<lambda>n. node_id n \<noteq> i \<and> node_id n = r) nds = filter (\<lambda>n. node_id n = r) nds"
  by (induction nds) auto

lemma root_ok_filter: "root_ok nds \<Longrightarrow> i \<noteq> ''root'' \<Longrightarrow> root_ok (filter (\<lambda>n. node_id n \<noteq> i) nds)"
  by (simp add: root_ok_def filter_root_filter list_all_iff)

lemma root_ok_map:
  "root_ok nds \<Longrightarrow> (\<And>n. node_id (f n) = node_id n \<and> node_type (f n) = node_type n) \<Longrightarrow> root_ok (map f nds)"
  by (simp add: root_ok_def filter_map comp_def list_all_iff)

lemma root_ok_createNodeBox: "root_ok (nodes s) \<Longrightarrow> i \<noteq> ''root'' \<Longrightarrow> root_ok (nodes (createNodeBox rt i r1 r2 s))"
  by (simp add: createNodeBox_def Let_def root_ok_append)

lemma root_ok_createNodeBoxAt: "root_ok (nodes s) \<Longrightarrow> i \<noteq> ''root'' \<Longrightarrow> root_ok (nodes (createNodeBoxAt i pos s))"
  by (simp add: createNodeBoxAt_def Let_def root_ok_append)

lemma root_ok_createInfoNodeAt: "root_ok (nodes s) \<Longrightarrow> i \<noteq> ''root'' \<Longrightarrow> root_ok (nodes (createInfoNodeAt i pos s))"
  by (simp add: createInfoNodeAt_def Let_def root_ok_append)

lemma root_ok_onConnect:
  "root_ok (nodes s) \<Longrightarrow> u2 \<noteq> ''root'' \<Longrightarrow> root_ok (nodes (onConnect rt src tgt u1 u2 u3 u4 r1 r2 s))"
  by (simp add: onConnect_def Let_def root_ok_append root_ok_createNodeBox waypoint_node_def)

lemma root_ok_addChild:
  "root_ok (nodes s) \<Longrightarrow> u1 \<noteq> ''root'' \<Longrightarrow> root_ok (nodes (addChild rt subject u1 u2 r s))"
  by (simp add: addChild_def Let_def root_ok_append split: option.splits list.splits)

lemma root_ok_onKey_Delete: "root_ok (nodes s) \<Longrightarrow> root_ok (nodes (onKey_Delete s))"
proof (cases "selectedId s")
  case None
  then show "root_ok (nodes s) \<Longrightarrow> ?thesis" by (simp add: onKey_Delete_def truthy_def)
next
  case (Some i)
  have eq: "(\<lambda>n. Some (node_id n) \<noteq> Some i) = (\<lambda>n. node_id n \<noteq> i)" by auto
  show "root_ok (nodes s) \<Longrightarrow> ?thesis"
    using Some by (auto simp: onKey_Delete_def root_ok_filter)
qed

lemma root_ok_deleteSelected: "root_ok (nodes s) \<Longrightarrow> root_ok (nodes (deleteSelected s))"
  by (simp add: deleteSelected_def Let_def root_ok_filter split: option.splits)

lemma root_ok_splitEdgeToWaypoint:
  "root_ok (nodes s) \<Longrightarrow> wpId \<noteq> ''root'' \<Longrightarrow> root_ok (nodes (splitEdgeToWaypoint rt edgeId wpId u1 u2 s))"
  by (simp add: splitEdgeToWaypoint_def Let_def root_ok_append waypoint_node_def split: option.splits)

lemma root_ok_insertWaypointAt:
  "root_ok (nodes s) \<Longrightarrow> wpId \<noteq> ''root'' \<Longrightarrow> root_ok (nodes (insertWaypointAt edgeId pos wpId ua ub s))"
  by (simp add: insertWaypointAt_def Let_def root_ok_append waypoint_node_def split: option.splits)

lemma adjacent_waypoint_not_root:
  "root_ok (nodes s) \<Longrightarrow> adjacent_waypoint e s = Some wp \<Longrightarrow> node_id wp \<noteq> ''root''"
  by (auto simp: adjacent_waypoint_def root_ok_def list_all_iff find_Some_iff)

lemma root_ok_removeWaypoint: "root_ok (nodes s) \<Longrightarrow> root_ok (nodes (removeWaypoint edgeId u s))"
  using adjacent_waypoint_not_root [of s]
  by (auto simp: removeWaypoint_def Let_def intro!: root_ok_filter split: option.splits)

lemma root_ok_updateSelected: "root_ok (nodes s) \<Longrightarrow> root_ok (nodes (updateSelected patch s))"
  by (simp add: updateSelected_def root_ok_map)

lemma root_ok_applyTemplate:
  "root_ok (nodes s) \<Longrightarrow> ty \<noteq> ''exam'' \<Longrightarrow> root_ok (nodes (applyTemplate rt ty u1 u2 u3 u4 s))"
  by (simp add: applyTemplate_def Let_def root_ok_def template_node_def upt_rec)

lemma root_ok_addChildOfSelected:
  "root_ok (nodes s) \<Longrightarrow> u1 \<noteq> ''root'' \<Longrightarrow> root_ok (nodes (addChildOfSelected rt u1 u2 r s))"
  by (simp add: addChildOfSelected_def root_ok_addChild split: option.splits)

lemma importJSON_nodes:
  "nodes (fst (importJSON content s)) =
     (case JSON_parse content of None \<Rightarrow> nodes s | Some parsed \<Rightarrow> or_empty (snap_nodes parsed))"
  by (simp add: importJSON_def Let_def split: option.splits collapsed_json.splits)

lemma root_ok_importJSON:
  "root_ok (nodes s) \<Longrightarrow> file_keeps_root content \<Longrightarrow> root_ok (nodes (fst (importJSON content s)))"
  by (simp add: importJSON_nodes file_keeps_root_def split: option.splits)

lemma map_zip_proj:
  "length xs = length ys \<Longrightarrow> (\<And>i y. h (g i y) = h y) \<Longrightarrow>
   map h (map (\<lambda>(i, y). g i y) (zip xs ys)) = map h ys"
  by (induction xs ys rule: list_induct2) auto

lemma root_ok_same_length:
  "length xs = length ys \<Longrightarrow> map node_id xs = map node_id ys \<Longrightarrow>
   map node_type xs = map node_type ys \<Longrightarrow>
   length (filter (\<lambda>n. node_id n = ''root'') xs) = length (filter (\<lambda>n. node_id n = ''root'') ys) \<and>
   list_all (\<lambda>n. node_id n \<noteq> ''root'' \<or> node_type n \<noteq> ''waypoint'') xs =
   list_all (\<lambda>n. node_id n \<noteq> ''root'' \<or> node_type n \<noteq> ''waypoint'') ys"
  by (induction xs ys rule: list_induct2) auto

lemma root_ok_ids_types:
  "map node_id nds' = map node_id nds \<Longrightarrow> map node_type nds' = map node_type nds \<Longrightarrow>
   root_ok nds' = root_ok nds"
  using root_ok_same_length [of nds' nds] map_eq_imp_length_eq [of node_id nds' node_id nds]
  by (simp add: root_ok_def)

lemma root_ok_autoArrange: "root_ok (nodes s) \<Longrightarrow> root_ok (nodes (autoArrange rt s))"
proof -
  have "map node_id (nodes (autoArrange rt s)) = map node_id (nodes s)"
    "map node_type (nodes (autoArrange rt s)) = map node_type (nodes s)"
    by (simp_all add: autoArrange_def Let_def map_zip_proj del: map_map)
  from root_ok_ids_types [OF this] show "root_ok (nodes s) \<Longrightarrow> ?thesis" by simp
qed

lemma root_ok_step:
  "root_ok (nodes s) \<Longrightarrow> keeps_root ev s \<Longrightarrow> root_ok (nodes (step rt ev s))"
  by (cases ev)
     (simp_all add: root_ok_createNodeBox root_ok_createNodeBoxAt root_ok_createInfoNodeAt
        root_ok_onConnect root_ok_addChild root_ok_addChildOfSelected root_ok_onKey_Delete
        root_ok_deleteSelected root_ok_splitEdgeToWaypoint root_ok_insertWaypointAt
        root_ok_removeWaypoint root_ok_updateSelected root_ok_applyTemplate root_ok_importJSON
        selectTool_def setConnType_def setConnLabel_def onSelectionChange_def
        root_ok_autoArrange
        selectTool_def setConnType_def setConnLabel_def setConnColor_def setConnWidth_def
        setConnLabelBg_def setConnLabelBgColor_def setConnLabelTextColor_def
        setEdgeLabel_def setEdgeArrows_def setEdgeStroke_def setEdgeStrokeWidth_def
        deleteSelectedEdge_def deleteEdge_def onToggleCollapse_def onNodesChange_def
        onEdgesChange_def
        split: tool.splits list.splits option.splits)

lemma root_ok_run:
  "root_ok (nodes s) \<Longrightarrow> session_keeps_root rt evs s \<Longrightarrow> root_ok (nodes (run rt evs s))"
  by (induction evs arbitrary: s) (simp_all add: root_ok_step)

lemma root_ok_initial: "root_ok (nodes (initial_state rt))"
  by (simp add: root_ok_def initial_state_def root_node_def)

text \<open>The state after the mount effect holds the initial node list or the stored one.\<close>

lemma mountEffect_nodes:
  "mountEffect saved s = Some s0 \<Longrightarrow>
   nodes s0 =
     (case saved of
        None \<Rightarrow> nodes s
      | Some content \<Rightarrow>
          (case JSON_parse content of None \<Rightarrow> nodes s | Some parsed \<Rightarrow> or_empty (snap_nodes parsed)))"
  by (auto simp: mountEffect_def Let_def or_empty_def split: option.splits collapsed_json.splits)

lemma root_ok_mountEffect:
  "mountEffect saved (initial_state rt) = Some s0 \<Longrightarrow>
   (case saved of None \<Rightarrow> True | Some content \<Rightarrow> file_keeps_root content) \<Longrightarrow> root_ok (nodes s0)"
  using root_ok_initial [of rt]
  by (auto simp: mountEffect_nodes file_keeps_root_def split: option.splits)

section \<open>Waypoints and snapshots\<close>

lemma find_append_none: "List.find P xs = None \<Longrightarrow> List.find P (xs @ ys) = List.find P ys"
  by (induction xs) (auto split: if_splits)

lemma find_append_some: "List.find P xs = Some x \<Longrightarrow> List.find P (xs @ ys) = Some x"
  by (induction xs) (auto split: if_splits)

lemma find_none_iff_all: "List.find P xs = None \<longleftrightarrow> (\<forall>x\<in>set xs. \<not> P x)"
  by (induction xs) auto

text \<open>
  When the graph has no waypoint yet and the generated ids are new, splitting an edge and
  removing the waypoint through either segment gives back the graph with the edge
  replaced by one edge between the same endpoints.
\<close>

lemma split_then_remove_without_other_waypoints:
  assumes e: "find_edge edgeId (edges s) = Some e"
    and nowp: "\<forall>n\<in>set (nodes s). node_type n \<noteq> ''waypoint'' \<and> node_id n \<noteq> wpId"
    and fresh: "\<forall>x\<in>set (edges s). source x \<noteq> wpId \<and> target x \<noteq> wpId \<and> edge_id x \<noteq> u1 \<and> edge_id x \<noteq> u2"
    and seg: "seg = u1 \<or> seg = u2"
  shows "\<exists>joined. removeWaypoint seg u (splitEdgeToWaypoint rt edgeId wpId u1 u2 s) =
           s\<lparr>edges := filter (\<lambda>x. edge_id x \<noteq> edgeId) (edges s) @ [joined]\<rparr> \<and>
           source joined = source e \<and> target joined = target e \<and> edge_id joined = u"
proof -
  let ?s1 = "splitEdgeToWaypoint rt edgeId wpId u1 u2 s"
  let ?a = "(blank_edge u1 (source e) wpId)
                    \<lparr>edge_type := edge_type e, label := label e, style := style e,
                     markerEnd := markerEnd e, markerStart := markerStart e\<rparr>"
  let ?b = "(blank_edge u2 wpId (target e))
                    \<lparr>edge_type := edge_type e, label := label e, style := style e,
                     markerEnd := markerEnd e, markerStart := markerStart e\<rparr>"
  let ?old = "filter (\<lambda>x. edge_id x \<noteq> edgeId) (edges s)"
  from e have ein: "e \<in> set (edges s)" by (auto simp: find_edge_def find_Some_iff in_set_conv_nth)
  with fresh have sw: "source e \<noteq> wpId" "target e \<noteq> wpId" by auto
  obtain w where w: "nodes ?s1 = nodes s @ [w]" "node_id w = wpId" "node_type w = ''waypoint''"
    and ed: "edges ?s1 = ?old @ [?a, ?b]"
    using e by (simp add: splitEdgeToWaypoint_def Let_def waypoint_node_def)
  have oldfresh: "\<forall>x\<in>set ?old. source x \<noteq> wpId \<and> target x \<noteq> wpId \<and> edge_id x \<noteq> u1 \<and> edge_id x \<noteq> u2"
    using fresh by auto
  have fseg: "find_edge seg (edges ?s1) = Some ?a \<or> find_edge seg (edges ?s1) = Some ?b"
  proof -
    have "List.find (\<lambda>x. edge_id x = seg) ?old = None"
      using oldfresh seg by (auto simp: find_none_iff_all)
    then show ?thesis
      unfolding find_edge_def ed using seg
      by (auto simp: find_append_none blank_edge_def)
  qed
  have adj: "adjacent_waypoint e' ?s1 = Some w" if "e' = ?a \<or> e' = ?b" for e'
  proof -
    have "List.find (\<lambda>n. node_type n = ''waypoint'' \<and>
         (list_ex (\<lambda>ed. source ed = node_id n \<and> target ed = target e') (edges ?s1) \<or>
          list_ex (\<lambda>ed. target ed = node_id n \<and> source ed = source e') (edges ?s1))) (nodes s) = None"
      using nowp by (auto simp: find_none_iff_all)
    then show ?thesis
      unfolding adjacent_waypoint_def w(1) using that w(2,3)
      by (auto simp: find_append_none ed blank_edge_def)
  qed
  have before: "List.find (\<lambda>x. target x = node_id w) (edges ?s1) = Some ?a"
  proof -
    have "List.find (\<lambda>x. target x = wpId) ?old = None"
      using oldfresh by (auto simp: find_none_iff_all)
    then show ?thesis unfolding ed w(2) by (simp add: find_append_none blank_edge_def)
  qed
  have after: "List.find (\<lambda>x. source x = node_id w) (edges ?s1) = Some ?b"
  proof -
    have "List.find (\<lambda>x. source x = wpId) ?old = None"
      using oldfresh by (auto simp: find_none_iff_all)
    then show ?thesis unfolding ed w(2) using sw by (simp add: find_append_none blank_edge_def)
  qed
  have others: "filter (\<lambda>x. source x \<noteq> node_id w \<and> target x \<noteq> node_id w) (edges ?s1) = ?old"
  proof -
    have "filter (\<lambda>x. source x \<noteq> wpId \<and> target x \<noteq> wpId) ?old = ?old"
      by (rule filter_True) (use oldfresh in blast)
    then show ?thesis unfolding ed w(2) by (simp add: blank_edge_def)
  qed
  have nds: "filter (\<lambda>n. node_id n \<noteq> node_id w) (nodes ?s1) = nodes s"
    unfolding w(1) using nowp w(2) by (auto intro: filter_True)
  let ?j = "(blank_edge u (source ?a) (target ?b))
                                   \<lparr>edge_type := edge_type ?a, label := label ?a, style := style ?a,
                                    markerEnd := markerEnd ?b\<rparr>"
  have rest: "?s1\<lparr>nodes := nodes s, edges := ?old @ [?j]\<rparr> = s\<lparr>edges := ?old @ [?j]\<rparr>"
    using e by (simp add: splitEdgeToWaypoint_def Let_def)
  have "removeWaypoint seg u ?s1 = s\<lparr>edges := ?old @ [?j]\<rparr>"
    using fseg
  proof
    assume f: "find_edge seg (edges ?s1) = Some ?a"
    show ?thesis
      unfolding removeWaypoint_def f using adj [of ?a] before after others nds rest
      by (simp add: Let_def)
  next
    assume f: "find_edge seg (edges ?s1) = Some ?b"
    show ?thesis
      unfolding removeWaypoint_def f using adj [of ?b] before after others nds rest
      by (simp add: Let_def)
  qed
  moreover have "source ?j = source e \<and> target ?j = target e \<and> edge_id ?j = u"
    by (simp add: blank_edge_def)
  ultimately show ?thesis by blast
qed


lemma new_Set_distinct: "distinct xs \<Longrightarrow> new_Set xs = xs"
proof (induction xs)
  case Nil
  then show ?case by simp
next
  case (Cons x xs)
  then have "filter (\<lambda>y. y \<noteq> x) xs = xs" by (auto intro: filter_True)
  with Cons show ?case by simp
qed

text \<open>
  The collapsed set of every session is a proper set: \<^verbatim>\<open>new Set\<close> removes repetitions, the
  toggle adds an id only when it is absent, and no other handler touches it.
\<close>

lemma new_Set_set: "set (new_Set xs) = set xs"
  by (induction xs rule: new_Set.induct) auto

lemma new_Set_is_distinct: "distinct (new_Set xs)"
  by (induction xs rule: new_Set.induct) (auto simp: new_Set_set)

lemma collapsed_distinct_importJSON:
  "distinct (collapsed s) \<Longrightarrow> distinct (collapsed (fst (importJSON content s)))"
  by (simp add: importJSON_def Let_def new_Set_is_distinct
      split: option.splits collapsed_json.splits)

lemma collapsed_distinct_step: "distinct (collapsed s) \<Longrightarrow> distinct (collapsed (step rt ev s))"
proof (cases ev)
  case (EvConnect src tgt u1 u2 u3 u4 r1 r2)
  then show "distinct (collapsed s) \<Longrightarrow> ?thesis"
    by (simp add: onConnect_def createNodeBox_def Let_def)
next
  case (EvApplyTemplate ty u1 u2 u3 u4)
  then show "distinct (collapsed s) \<Longrightarrow> ?thesis"
    by (simp add: applyTemplate_def Let_def)
next
  case (EvImport content)
  then show "distinct (collapsed s) \<Longrightarrow> ?thesis"
    by (simp add: collapsed_distinct_importJSON)
next
  case (EvRemoveWaypoint edgeId u)
  then show "distinct (collapsed s) \<Longrightarrow> ?thesis"
    by (simp add: removeWaypoint_def Let_def split: option.splits)
next
  case (EvAddChildOfSelected u1 u2 r)
  then show "distinct (collapsed s) \<Longrightarrow> ?thesis"
    by (simp add: addChildOfSelected_def addChild_def Let_def split: option.splits list.splits)
qed (simp_all add: createNodeBox_def createNodeBoxAt_def createInfoNodeAt_def selectTool_def
        setConnType_def setConnLabel_def onSelectionChange_def onKey_Delete_def addChild_def
        deleteSelected_def deleteSelectedEdge_def deleteEdge_def splitEdgeToWaypoint_def
        insertWaypointAt_def updateSelected_def onToggleCollapse_def onNodesChange_def
        onEdgesChange_def setConnColor_def setConnWidth_def setConnLabelBg_def
        setConnLabelBgColor_def setConnLabelTextColor_def setEdgeLabel_def setEdgeArrows_def
        setEdgeStroke_def setEdgeStrokeWidth_def autoArrange_def Let_def
        split: tool.splits list.splits option.splits)

lemma collapsed_distinct_run: "distinct (collapsed s) \<Longrightarrow> distinct (collapsed (run rt evs s))"
  by (induction evs arbitrary: s) (simp_all add: collapsed_distinct_step)

lemma collapsed_distinct_mountEffect:
  "mountEffect saved (initial_state rt) = Some s0 \<Longrightarrow> distinct (collapsed s0)"
  by (auto simp: mountEffect_def initial_state_def Let_def new_Set_is_distinct
      split: option.splits collapsed_json.splits)

lemma collapsed_distinct_reachable:
  "mountEffect saved (initial_state rt) = Some s0 \<Longrightarrow> distinct (collapsed (run rt evs s0))"
  by (rule collapsed_distinct_run) (rule collapsed_distinct_mountEffect)

text \<open>
  Export followed by import installs the image of the graph under JSON, whatever graph
  was open before; nodes and edges whose values JSON keeps are their own image.
\<close>

lemma export_import_image:
  "importJSON (exportJSON rt s) s0 =
     (s0\<lparr>nodes := map (json_node rt) (nodes s), edges := map (json_edge rt) (edges s),
         collapsed := new_Set (collapsed s)\<rparr>, False)"
  by (simp add: importJSON_def exportJSON_def JSON_stringify_def JSON_parse_def
      current_snapshot_def or_empty_def Array_from_def)

lemma json_node_safe: "node_safe rt n \<Longrightarrow> json_node rt n = n"
  by (cases "data_color (node_data n)")
     (auto simp: node_safe_def number_safe_def color_safe_def json_node_def json_data_def
        json_color_def split: color.splits)

lemma json_edge_safe: "edge_safe rt e \<Longrightarrow> json_edge rt e = e"
  by (cases "style e")
     (auto simp: edge_safe_def number_safe_def json_edge_def json_style_def
        split: option.splits)

lemma json_safe_image:
  "json_safe rt s \<Longrightarrow> map (json_node rt) (nodes s) = nodes s \<and> map (json_edge rt) (edges s) = edges s"
  by (auto simp: json_safe_def list_all_iff json_node_safe json_edge_safe intro: map_idI)

section \<open>Claims\<close>

text \<open>
  C1 (as amended). The first render has exactly one node whose id is \<^verbatim>\<open>root\<close>. A session
  keeps exactly one such node when the mount effect finds no stored map, or one whose
  node list has exactly one \<^verbatim>\<open>root\<close> that is not a waypoint, and when every gesture is one
  of these: a creation of nodes or edges, a deletion by button or key, a waypoint
  operation, an edit in the inspector or the connection list, auto-arrange, a collapse
  toggle, the research or the planner template (with generated node ids other than
  \<^verbatim>\<open>root\<close>), an import of a file that is rejected
  or whose node list has exactly one \<^verbatim>\<open>root\<close> that is not a waypoint, or a change from the
  rendering library whose resulting list has exactly one such node. Import and the mount
  effect install the node list they read as it is, and \<^verbatim>\<open>onNodesChange\<close> installs the list
  the library returns as it is.
\<close>

theorem root_unique_in_sessions:
  "(mountEffect saved (initial_state rt) = Some s0 \<and>
    (case saved of None \<Rightarrow> True | Some stored \<Rightarrow> file_keeps_root stored) \<and>
    session_keeps_root rt evs s0 \<longrightarrow> root_count (run rt evs s0) = 1) \<and>
   nodes (fst (importJSON content s)) =
     (case JSON_parse content of None \<Rightarrow> nodes s | Some parsed \<Rightarrow> or_empty (snap_nodes parsed)) \<and>
   (mountEffect (Some content) s = Some s' \<longrightarrow>
      nodes s' =
        (case JSON_parse content of None \<Rightarrow> nodes s | Some parsed \<Rightarrow> or_empty (snap_nodes parsed))) \<and>
   nodes (onNodesChange applyNodeChanges changes s) = applyNodeChanges changes (nodes s)"
proof -
  have "root_count (run rt evs s0) = 1"
    if "mountEffect saved (initial_state rt) = Some s0"
      and "case saved of None \<Rightarrow> True | Some stored \<Rightarrow> file_keeps_root stored"
      and "session_keeps_root rt evs s0"
    using root_ok_run [OF root_ok_mountEffect [OF that(1) that(2)] that(3)]
    by (simp add: root_ok_def root_count_def)
  moreover have "nodes s' =
        (case JSON_parse content of None \<Rightarrow> nodes s | Some parsed \<Rightarrow> or_empty (snap_nodes parsed))"
    if "mountEffect (Some content) s = Some s'"
    using mountEffect_nodes [OF that] by simp
  ultimately show ?thesis
    by (simp add: importJSON_nodes onNodesChange_def)
qed

text \<open>
  A session that starts from the stored planner map, adds a child, bends and straightens
  its edge, receives a move of the child from the rendering library, imports the
  single-root graph and ends with deletions and the planner template.
\<close>

theorem root_unique_in_sessions_witness:
  "mountEffect
     (autosave exact_runtime
        (applyTemplate exact_runtime ''planner'' ''p1'' ''p2'' ''p3'' ''p4''
           (initial_state exact_runtime)))
     (initial_state exact_runtime)
     = Some (applyTemplate exact_runtime ''planner'' ''p1'' ''p2'' ''p3'' ''p4''
               (initial_state exact_runtime)) \<and>
   root_count
     (run exact_runtime
        [EvAddChild ''Math'' ''n1'' ''e1'' (1/2), EvSplitEdge ''e1'' ''w1'' ''a1'' ''b1'',
         EvRemoveWaypoint ''a1'' ''j1'',
         EvNodesChange (map (\<lambda>n. if node_id n = ''n1''
                                   then n\<lparr>node_position := \<lparr>pos_x = 10, pos_y = 20\<rparr>\<rparr> else n)),
         EvImport (exportJSON exact_runtime (initial_state exact_runtime)),
         EvDeleteSelected, EvKeyDelete,
         EvApplyTemplate ''planner'' ''q1'' ''q2'' ''q3'' ''q4'']
        (applyTemplate exact_runtime ''planner'' ''p1'' ''p2'' ''p3'' ''p4''
           (initial_state exact_runtime))) = 1"
proof -
  let ?s0 = "applyTemplate exact_runtime ''planner'' ''p1'' ''p2'' ''p3'' ''p4''
               (initial_state exact_runtime)"
  let ?saved = "autosave exact_runtime ?s0"
  let ?evs = "[EvAddChild ''Math'' ''n1'' ''e1'' (1/2), EvSplitEdge ''e1'' ''w1'' ''a1'' ''b1'',
         EvRemoveWaypoint ''a1'' ''j1'',
         EvNodesChange (map (\<lambda>n. if node_id n = ''n1''
                                   then n\<lparr>node_position := \<lparr>pos_x = 10, pos_y = 20\<rparr>\<rparr> else n)),
         EvImport (exportJSON exact_runtime (initial_state exact_runtime)),
         EvDeleteSelected, EvKeyDelete,
         EvApplyTemplate ''planner'' ''q1'' ''q2'' ''q3'' ''q4'']"
  have m: "mountEffect ?saved (initial_state exact_runtime) = Some ?s0"
    by (simp add: mountEffect_def autosave_def JSON_stringify_def JSON_parse_def
        current_snapshot_def Array_from_def applyTemplate_def template_node_def template_edge_def
        json_node_def json_data_def json_color_def json_edge_def handler_defs)
  have f: "case ?saved of None \<Rightarrow> True | Some stored \<Rightarrow> file_keeps_root stored"
    by (simp add: autosave_def JSON_stringify_def JSON_parse_def file_keeps_root_def
        current_snapshot_def or_empty_def root_ok_def applyTemplate_def template_node_def
        json_node_def json_data_def json_color_def handler_defs)
  have k: "session_keeps_root exact_runtime ?evs ?s0"
    by (simp add: file_keeps_root_def exportJSON_def JSON_stringify_def JSON_parse_def
        current_snapshot_def or_empty_def root_ok_def applyTemplate_def template_node_def
        template_edge_def removeWaypoint_def adjacent_waypoint_def onNodesChange_def
        json_node_def json_data_def json_color_def handler_defs)
  from root_unique_in_sessions [of ?saved exact_runtime ?s0 ?evs, THEN conjunct1] m f k
  have "root_count (run exact_runtime ?evs ?s0) = 1" by blast
  with m show ?thesis by blast
qed

text \<open>
  C1 as stated fails: the exam template installs the nodes \<open>1\<close> to \<open>4\<close> and no \<^verbatim>\<open>root\<close>;
  importing a snapshot with an empty node list leaves no node at all; a reload after the
  exam template starts from the stored map without \<^verbatim>\<open>root\<close>; and when the rendering
  library answers a removal of \<^verbatim>\<open>root\<close> by the list without it, that list is installed.
\<close>

theorem exam_template_and_import_drop_root:
  "root_count (step exact_runtime (EvApplyTemplate ''exam'' ''u1'' ''u2'' ''u3'' ''u4'')
                 (initial_state exact_runtime)) = 0 \<and>
   root_count (step exact_runtime
                 (EvImport (Json \<lparr>snap_nodes = Some [], snap_edges = Some [],
                                   snap_collapsed = CollapsedIterable []\<rparr>))
                 (initial_state exact_runtime)) = 0 \<and>
   map_option root_count (mountEffect stored_exam_map (initial_state exact_runtime)) = Some 0 \<and>
   root_count (onNodesChange (\<lambda>removed. filter (\<lambda>n. node_id n \<notin> set removed)) [''root'']
                 (initial_state exact_runtime)) = 0"
  by (simp add: root_count_def applyTemplate_def template_node_def importJSON_def or_empty_def
      JSON_parse_def stored_exam_map_def autosave_def JSON_stringify_def current_snapshot_def
      mountEffect_def json_node_def json_data_def onNodesChange_def handler_defs)

text \<open>
  C2 (as amended). While the selected node id is \<^verbatim>\<open>root\<close>, the inspector's delete action
  changes nothing, and the Delete/Backspace key handler leaves the node list unchanged;
  the key handler leaves the edge list unchanged too unless an edge is selected, in
  which case it removes exactly that edge.
\<close>

theorem delete_with_root_selected:
  "selectedId s = Some ''root'' \<Longrightarrow>
   deleteSelected s = s \<and> nodes (onKey_Delete s) = nodes s \<and>
   edges (onKey_Delete s) =
     (if truthy (selectedEdgeId s) then filter (\<lambda>x. Some (edge_id x) \<noteq> selectedEdgeId s) (edges s)
      else edges s)"
  by (auto simp: deleteSelected_def onKey_Delete_def selectedNode_def find_node_def
      find_Some_iff split: option.splits)

theorem delete_with_root_selected_witness:
  "deleteSelected (addChild exact_runtime ''Math'' ''n1'' ''e1'' (1/2) (initial_state exact_runtime)
                     \<lparr>selectedId := Some ''root''\<rparr>)
     = addChild exact_runtime ''Math'' ''n1'' ''e1'' (1/2) (initial_state exact_runtime)
         \<lparr>selectedId := Some ''root''\<rparr> \<and>
   edges (onKey_Delete (addChild exact_runtime ''Math'' ''n1'' ''e1'' (1/2)
                          (initial_state exact_runtime)\<lparr>selectedId := Some ''root''\<rparr>))
     = edges (addChild exact_runtime ''Math'' ''n1'' ''e1'' (1/2) (initial_state exact_runtime))"
  using delete_with_root_selected
    [of "addChild exact_runtime ''Math'' ''n1'' ''e1'' (1/2) (initial_state exact_runtime)
           \<lparr>selectedId := Some ''root''\<rparr>"]
  by (simp add: handler_defs)

text \<open>
  C2 as stated fails for the key handler: in the session \<open>root_and_edge_selected\<close> the
  selected node is \<^verbatim>\<open>root\<close>, and pressing Delete removes the only edge.
\<close>

theorem delete_key_removes_selected_edge:
  "selectedId root_and_edge_selected = Some ''root'' \<and>
   map_option node_id (selectedNode root_and_edge_selected) = Some ''root'' \<and>
   length (edges root_and_edge_selected) = 1 \<and>
   length (edges (onKey_Delete root_and_edge_selected)) = 0"
  by (simp add: root_and_edge_selected_def deleteSelected_def onKey_Delete_def handler_defs)

text \<open>
  C3 (as amended). Recomputing the hidden set from its own output and the same edges
  yields a subset of it, and recomputing from the collapsed ids together with the output
  yields the same set.
\<close>

theorem recompute_hidden_on_output:
  "set (computeHiddenTargets (computeHiddenTargets collapsedIds eds) eds)
     \<subseteq> set (computeHiddenTargets collapsedIds eds) \<and>
   set (computeHiddenTargets (collapsedIds @ computeHiddenTargets collapsedIds eds) eds)
     = set (computeHiddenTargets collapsedIds eds)"
proof -
  let ?R = "edge_rel eds" and ?C = "set collapsedIds"
  have a: "?R\<^sup>+ `` (?R\<^sup>+ `` ?C) \<subseteq> ?R\<^sup>+ `` ?C" by (auto intro: trancl_trans)
  then have b: "?R\<^sup>+ `` (?C \<union> ?R\<^sup>+ `` ?C) = ?R\<^sup>+ `` ?C" by blast
  show ?thesis using a b by (simp add: computeHiddenTargets_reach)
qed

text \<open>
  C3 as stated fails: with \<^verbatim>\<open>root\<close> collapsed and the single edge from \<^verbatim>\<open>root\<close> to \<open>A\<close> the
  hidden set is \<open>{A}\<close>, and recomputing from \<open>{A}\<close> gives the empty set.
\<close>

theorem recompute_hidden_not_idempotent:
  "set (computeHiddenTargets (computeHiddenTargets [''root''] [blank_edge ''e1'' ''root'' ''A''])
          [blank_edge ''e1'' ''root'' ''A''])
   \<noteq> set (computeHiddenTargets [''root''] [blank_edge ''e1'' ''root'' ''A''])"
  by (simp add: computeHiddenTargets_def blank_edge_def)

text \<open>
  C4. A node that is collapsed and not hidden should still be rendered, only its
  descendants should vanish. The render leaves it out. In \<open>example_root_A\<close> the node
  \<^verbatim>\<open>root\<close> is collapsed and not hidden, and no node is rendered. In \<open>chain_A_collapsed\<close>
  the node \<open>A\<close> is collapsed and not hidden: only \<^verbatim>\<open>root\<close> is rendered, while the edge from
  \<^verbatim>\<open>root\<close> to \<open>A\<close> is still among the rendered edges.
\<close>

theorem collapsed_node_not_rendered:
  "collapsed example_root_A = [''root''] \<and> hiddenTargets example_root_A = [''A''] \<and>
   map node_id (nodes example_root_A) = [''root'', ''A''] \<and>
   map (\<lambda>d. node_id (rendered d)) (decoratedNodes example_root_A) = [] \<and>
   collapsed chain_A_collapsed = [''A''] \<and> hiddenTargets chain_A_collapsed = [''C''] \<and>
   map node_id (nodes chain_A_collapsed) = [''root'', ''A'', ''C''] \<and>
   map (\<lambda>d. node_id (rendered d)) (decoratedNodes chain_A_collapsed) = [''root''] \<and>
   map (\<lambda>e. (source e, target e)) (visibleEdges chain_A_collapsed) = [(''root'', ''A'')]"
  by (simp add: example_root_A_def chain_A_collapsed_def hiddenTargets_def
      computeHiddenTargets_def decoratedNodes_def visibleEdges_def handler_defs)

text \<open>
  C5. The hidden set of a render is the set of ids that the collapsed ids reach along
  one or more edges, and an edge is rendered if and only if it is an edge of the graph,
  neither its source nor its target is in that set, and its source is not collapsed. In
  the graph with the nodes \<^verbatim>\<open>root\<close> and \<open>A\<close>, the edge from \<^verbatim>\<open>root\<close> to \<open>A\<close> and \<^verbatim>\<open>root\<close>
  collapsed, the hidden set is \<open>{A}\<close> and no edge is rendered. In the chain from \<^verbatim>\<open>root\<close>
  over \<open>A\<close> to \<open>C\<close> with \<^verbatim>\<open>root\<close> collapsed the hidden set is \<open>{A, C}\<close> and the edge from \<open>A\<close>
  to \<open>C\<close>, whose source is not collapsed, is not rendered either.
\<close>

theorem visible_edges:
  "(e \<in> set (visibleEdges s) \<longleftrightarrow>
      e \<in> set (edges s) \<and>
      source e \<notin> (edge_rel (edges s))\<^sup>+ `` set (collapsed s) \<and>
      target e \<notin> (edge_rel (edges s))\<^sup>+ `` set (collapsed s) \<and>
      source e \<notin> set (collapsed s)) \<and>
   set (hiddenTargets s) = (edge_rel (edges s))\<^sup>+ `` set (collapsed s) \<and>
   map node_id (nodes example_root_A) = [''root'', ''A''] \<and>
   map (\<lambda>x. (source x, target x)) (edges example_root_A) = [(''root'', ''A'')] \<and>
   collapsed example_root_A = [''root''] \<and>
   computeHiddenTargets [''root''] (edges example_root_A) = [''A''] \<and>
   hiddenTargets example_root_A = [''A''] \<and>
   visibleEdges example_root_A = [] \<and>
   map (\<lambda>x. (source x, target x)) (edges chain_root_collapsed) = [(''root'', ''A''), (''A'', ''C'')] \<and>
   collapsed chain_root_collapsed = [''root''] \<and>
   hiddenTargets chain_root_collapsed = [''A'', ''C''] \<and>
   visibleEdges chain_root_collapsed = []"
proof -
  have h: "set (hiddenTargets s) = (edge_rel (edges s))\<^sup>+ `` set (collapsed s)"
    by (simp add: hiddenTargets_def computeHiddenTargets_reach)
  have "e \<in> set (visibleEdges s) \<longleftrightarrow>
      e \<in> set (edges s) \<and>
      source e \<notin> (edge_rel (edges s))\<^sup>+ `` set (collapsed s) \<and>
      target e \<notin> (edge_rel (edges s))\<^sup>+ `` set (collapsed s) \<and>
      source e \<notin> set (collapsed s)"
    unfolding h [symmetric] by (auto simp: visibleEdges_def)
  moreover have "map node_id (nodes example_root_A) = [''root'', ''A''] \<and>
   map (\<lambda>x. (source x, target x)) (edges example_root_A) = [(''root'', ''A'')] \<and>
   collapsed example_root_A = [''root''] \<and>
   computeHiddenTargets [''root''] (edges example_root_A) = [''A''] \<and>
   hiddenTargets example_root_A = [''A''] \<and>
   visibleEdges example_root_A = []"
    by (simp add: example_root_A_def hiddenTargets_def computeHiddenTargets_def
        visibleEdges_def handler_defs)
  moreover have "map (\<lambda>x. (source x, target x)) (edges chain_root_collapsed)
      = [(''root'', ''A''), (''A'', ''C'')] \<and>
   collapsed chain_root_collapsed = [''root''] \<and>
   hiddenTargets chain_root_collapsed = [''A'', ''C''] \<and>
   visibleEdges chain_root_collapsed = []"
    by (simp add: chain_root_collapsed_def hiddenTargets_def computeHiddenTargets_def
        visibleEdges_def handler_defs)
  ultimately show ?thesis using h by blast
qed

text \<open>
  C6. A connect gesture under the informational tool between two existing nodes appends
  exactly one node: a waypoint with the generated id whose position is, in each
  coordinate, the sum of the two endpoint coordinates divided by two, computed by the
  runtime. It appends exactly two edges: from the source to the waypoint, with the
  pending label and style, and from the waypoint to the target, without a label. Neither
  edge has a start or an end marker, whatever the pending arrow mode is.
\<close>

theorem informational_connect:
  assumes "currentTool s = ToolInformational"
    and "find_node src (nodes s) = Some a" and "find_node tgt (nodes s) = Some b"
  shows "\<exists>wp ea eb.
     nodes (onConnect rt src tgt u1 u2 u3 u4 r1 r2 s) = nodes s @ [wp] \<and>
     node_id wp = u2 \<and> node_type wp = ''waypoint'' \<and>
     pos_x (node_position wp) =
       js_div rt (js_add rt (pos_x (node_position a)) (pos_x (node_position b))) (js_lit rt 2) \<and>
     pos_y (node_position wp) =
       js_div rt (js_add rt (pos_y (node_position a)) (pos_y (node_position b))) (js_lit rt 2) \<and>
     edges (onConnect rt src tgt u1 u2 u3 u4 r1 r2 s) = edges s @ [ea, eb] \<and>
     source ea = src \<and> target ea = u2 \<and> label ea = or_undefined (connLabel s) \<and>
     style ea = Some \<lparr>stroke = Some (connColor s), strokeWidth = Some (connWidth s),
                      strokeDasharray = None\<rparr> \<and>
     labelShowBg ea = Some (connLabelBg s) \<and> labelBgStyle ea = Some (connLabelBgColor s) \<and>
     labelStyle ea = Some (connLabelTextColor s) \<and>
     markerStart ea = None \<and> markerEnd ea = None \<and>
     source eb = u2 \<and> target eb = tgt \<and> label eb = None \<and>
     markerStart eb = None \<and> markerEnd eb = None"
  using assms by (simp add: onConnect_def Let_def waypoint_node_def)

text \<open>
  On the exact runtime, between \<^verbatim>\<open>root\<close> at (250, 100) and \<open>A\<close> at (450, 100), with the
  pending arrow mode two-way: the waypoint is at (350, 100).
\<close>

theorem informational_connect_witness:
  "connType informational_session = TwoWay \<and>
   map (\<lambda>n. (node_id n, node_type n, pos_x (node_position n), pos_y (node_position n)))
     (nodes (onConnect exact_runtime ''root'' ''A'' ''u1'' ''w'' ''ea'' ''eb'' 0 0
               informational_session)) =
     [(''root'', ''study'', 250, 100), (''A'', ''study'', 450, 100), (''w'', ''waypoint'', 350, 100)] \<and>
   map (\<lambda>e. (source e, target e, label e, markerStart e, markerEnd e))
     (edges (onConnect exact_runtime ''root'' ''A'' ''u1'' ''w'' ''ea'' ''eb'' 0 0
               informational_session)) =
     [(''root'', ''A'', None, None, Some ArrowClosed),
      (''root'', ''w'', Some ''causes'', None, None), (''w'', ''A'', None, None, None)]"
proof -
  let ?A = "the (find_node ''A'' (nodes informational_session))"
  let ?r = "onConnect exact_runtime ''root'' ''A'' ''u1'' ''w'' ''ea'' ''eb'' 0 0
              informational_session"
  have t: "currentTool informational_session = ToolInformational"
    by (simp add: informational_session_def handler_defs)
  have a: "find_node ''root'' (nodes informational_session) = Some (root_node exact_runtime)"
    by (simp add: informational_session_def handler_defs)
  have b: "find_node ''A'' (nodes informational_session) = Some ?A"
    by (simp add: informational_session_def handler_defs)
  have pa: "pos_x (node_position ?A) = 450 \<and> pos_y (node_position ?A) = 100"
    by (simp add: informational_session_def handler_defs)
  have old: "map (\<lambda>n. (node_id n, node_type n, pos_x (node_position n), pos_y (node_position n)))
       (nodes informational_session) = [(''root'', ''study'', 250, 100), (''A'', ''study'', 450, 100)] \<and>
     map (\<lambda>e. (source e, target e, label e, markerStart e, markerEnd e)) (edges informational_session)
       = [(''root'', ''A'', None, None, Some ArrowClosed)] \<and>
     connLabel informational_session = ''causes'' \<and> connType informational_session = TwoWay"
    by (simp add: informational_session_def handler_defs)
  from informational_connect [OF t a b, of exact_runtime "''u1''" "''w''" "''ea''" "''eb''" 0 0]
  obtain wp ea eb where
    "nodes ?r = nodes informational_session @ [wp]"
    "node_id wp = ''w''" "node_type wp = ''waypoint''"
    "pos_x (node_position wp) =
       js_div exact_runtime (js_add exact_runtime (pos_x (node_position (root_node exact_runtime)))
         (pos_x (node_position ?A))) (js_lit exact_runtime 2)"
    "pos_y (node_position wp) =
       js_div exact_runtime (js_add exact_runtime (pos_y (node_position (root_node exact_runtime)))
         (pos_y (node_position ?A))) (js_lit exact_runtime 2)"
    "edges ?r = edges informational_session @ [ea, eb]"
    "source ea = ''root''" "target ea = ''w''" "label ea = or_undefined (connLabel informational_session)"
    "markerStart ea = None" "markerEnd ea = None"
    "source eb = ''w''" "target eb = ''A''" "label eb = None"
    "markerStart eb = None" "markerEnd eb = None"
    by blast
  then show ?thesis
    using old pa by (simp add: or_undefined_def exact_runtime_def root_node_def)
qed

text \<open>
  C7. Splitting an edge and removing the waypoint through a segment should leave one
  edge between the original endpoints and no inserted waypoint. In \<open>two_bent_edges\<close> the
  edge \<open>e1\<close> from \<^verbatim>\<open>root\<close> to \<open>A\<close> is split through \<open>w1\<close>; removing the waypoint through the
  first segment \<open>a1\<close> deletes the other waypoint \<open>w0\<close> instead and joins \<^verbatim>\<open>root\<close> to \<open>B\<close>:
  \<open>w1\<close> stays and there is no edge from \<^verbatim>\<open>root\<close> to \<open>A\<close>.
\<close>

theorem remove_waypoint_picks_other_waypoint:
  "map node_id (nodes two_bent_edges) = [''root'', ''A'', ''B'', ''w0''] \<and>
   map (\<lambda>e. (edge_id e, source e, target e)) (edges two_bent_edges) =
     [(''e1'', ''root'', ''A''), (''a0'', ''root'', ''w0''), (''b0'', ''w0'', ''B'')] \<and>
   map node_id (nodes (removeWaypoint ''a1'' ''j''
       (splitEdgeToWaypoint exact_runtime ''e1'' ''w1'' ''a1'' ''b1'' two_bent_edges))) =
     [''root'', ''A'', ''B'', ''w1''] \<and>
   map (\<lambda>e. (edge_id e, source e, target e)) (edges (removeWaypoint ''a1'' ''j''
       (splitEdgeToWaypoint exact_runtime ''e1'' ''w1'' ''a1'' ''b1'' two_bent_edges))) =
     [(''a1'', ''root'', ''w1''), (''b1'', ''w1'', ''A''), (''j'', ''root'', ''B'')]"
  by (simp add: two_bent_edges_def handler_defs removeWaypoint_def adjacent_waypoint_def)

text \<open>
  C8 (as amended). With an edge id that is not in the edge list, \<^verbatim>\<open>insertWaypointAt\<close>
  leaves the edge list unchanged and \<^verbatim>\<open>removeWaypoint\<close> changes nothing. \<^verbatim>\<open>removeWaypoint\<close>
  also changes nothing when no waypoint is found for the edge. When a waypoint is found
  that lacks an inbound or an outbound edge, \<^verbatim>\<open>removeWaypoint\<close> deletes the waypoint and
  every edge incident to it and adds no edge.
\<close>

theorem waypoint_noops:
  "(find_edge edgeId (edges s) = None \<longrightarrow>
      edges (insertWaypointAt edgeId pos wpId ua ub s) = edges s \<and> removeWaypoint edgeId u s = s) \<and>
   (find_edge edgeId (edges s) = Some e \<and> adjacent_waypoint e s = None \<longrightarrow>
      removeWaypoint edgeId u s = s) \<and>
   (find_edge edgeId (edges s) = Some e \<and> adjacent_waypoint e s = Some wp \<and>
    (List.find (\<lambda>x. target x = node_id wp) (edges s) = None \<or>
     List.find (\<lambda>x. source x = node_id wp) (edges s) = None) \<longrightarrow>
      removeWaypoint edgeId u s =
        s\<lparr>nodes := filter (\<lambda>n. node_id n \<noteq> node_id wp) (nodes s),
          edges := filter (\<lambda>x. source x \<noteq> node_id wp \<and> target x \<noteq> node_id wp) (edges s)\<rparr>)"
  by (auto simp: insertWaypointAt_def removeWaypoint_def Let_def split: option.splits)

theorem waypoint_noops_witness:
  "edges (insertWaypointAt ''nope'' \<lparr>pos_x = 1, pos_y = 2\<rparr> ''w'' ''a'' ''b''
            (initial_state exact_runtime)) = [] \<and>
   removeWaypoint ''nope'' ''j'' (initial_state exact_runtime) = initial_state exact_runtime \<and>
   removeWaypoint ''e1'' ''j''
       (addChild exact_runtime ''Math'' ''A'' ''e1'' (1/2) (initial_state exact_runtime))
     = addChild exact_runtime ''Math'' ''A'' ''e1'' (1/2) (initial_state exact_runtime) \<and>
   map node_id (nodes (removeWaypoint ''a1'' ''j'' dangling_waypoint)) = [''root'', ''A''] \<and>
   edges (removeWaypoint ''a1'' ''j'' dangling_waypoint) = []"
proof -
  let ?i = "initial_state exact_runtime"
  have 1: "find_edge ''nope'' (edges ?i) = None"
    by (simp add: handler_defs)
  let ?s = "addChild exact_runtime ''Math'' ''A'' ''e1'' (1/2) ?i"
  let ?e = "the (find_edge ''e1'' (edges ?s))"
  have 2: "find_edge ''e1'' (edges ?s) = Some ?e \<and> adjacent_waypoint ?e ?s = None"
    by (simp add: handler_defs adjacent_waypoint_def)
  let ?d = "the (find_edge ''a1'' (edges dangling_waypoint))"
  let ?w = "the (adjacent_waypoint ?d dangling_waypoint)"
  have 3: "find_edge ''a1'' (edges dangling_waypoint) = Some ?d \<and>
      adjacent_waypoint ?d dangling_waypoint = Some ?w \<and>
      (List.find (\<lambda>x. target x = node_id ?w) (edges dangling_waypoint) = None \<or>
       List.find (\<lambda>x. source x = node_id ?w) (edges dangling_waypoint) = None)"
    by (simp add: dangling_waypoint_def handler_defs adjacent_waypoint_def)
  have 4: "node_id ?w = ''w1''"
    by (simp add: dangling_waypoint_def handler_defs adjacent_waypoint_def)
  note a = waypoint_noops [of "''nope''" ?i "\<lparr>pos_x = 1, pos_y = 2\<rparr>" "''w''" "''a''" "''b''" "''j''"]
  note b = waypoint_noops [of "''e1''" ?s _ _ _ _ "''j''" ?e]
  note c = waypoint_noops [of "''a1''" dangling_waypoint _ _ _ _ "''j''" ?d ?w]
  from a 1 have x: "edges (insertWaypointAt ''nope'' \<lparr>pos_x = 1, pos_y = 2\<rparr> ''w'' ''a'' ''b'' ?i) = edges ?i"
     "removeWaypoint ''nope'' ''j'' ?i = ?i" by blast+
  from b 2 have y: "removeWaypoint ''e1'' ''j'' ?s = ?s" by blast
  from c 3 have z: "removeWaypoint ''a1'' ''j'' dangling_waypoint =
        dangling_waypoint\<lparr>nodes := filter (\<lambda>n. node_id n \<noteq> node_id ?w) (nodes dangling_waypoint),
          edges := filter (\<lambda>x. source x \<noteq> node_id ?w \<and> target x \<noteq> node_id ?w) (edges dangling_waypoint)\<rparr>"
    by blast
  have z': "map node_id (nodes (removeWaypoint ''a1'' ''j'' dangling_waypoint)) = [''root'', ''A''] \<and>
   edges (removeWaypoint ''a1'' ''j'' dangling_waypoint) = []"
    unfolding z 4 by (simp add: dangling_waypoint_def handler_defs)
  show ?thesis using x y z' by (simp add: initial_state_def)
qed

text \<open>
  C8 as stated fails: \<^verbatim>\<open>insertWaypointAt\<close> with an unknown edge id appends a waypoint node,
  and \<^verbatim>\<open>removeWaypoint\<close> on the only edge of a waypoint without outbound edge deletes the
  waypoint and that edge.
\<close>

theorem waypoint_operations_mutate:
  "find_edge ''nope'' (edges (initial_state exact_runtime)) = None \<and>
   map node_id (nodes (insertWaypointAt ''nope'' \<lparr>pos_x = 1, pos_y = 2\<rparr> ''w'' ''a'' ''b''
                         (initial_state exact_runtime)))
     = [''root'', ''w''] \<and>
   map node_id (nodes dangling_waypoint) = [''root'', ''A'', ''w1''] \<and>
   map (\<lambda>e. (edge_id e, source e, target e)) (edges dangling_waypoint) = [(''a1'', ''root'', ''w1'')] \<and>
   map node_id (nodes (removeWaypoint ''a1'' ''j'' dangling_waypoint)) = [''root'', ''A''] \<and>
   edges (removeWaypoint ''a1'' ''j'' dangling_waypoint) = []"
  by (simp add: dangling_waypoint_def handler_defs removeWaypoint_def adjacent_waypoint_def)

text \<open>
  C9 (as amended). Export followed by import installs the image of the exported graph
  under JSON, whatever graph was open before. For every graph whose numbers JSON reads
  back as they were written and whose node colours are missing, strings or empty objects,
  and every collapsed set (a list without repetition), that image is the graph itself:
  the same nodes, the same edges and the same collapsed set. The empty graph, the
  single-root graph and a graph with a waypoint-bent edge are such graphs.
\<close>

theorem export_import_roundtrip:
  "importJSON (exportJSON rt s) s0 =
     (s0\<lparr>nodes := map (json_node rt) (nodes s), edges := map (json_edge rt) (edges s),
         collapsed := new_Set (collapsed s)\<rparr>, False) \<and>
   (json_safe rt s \<and> distinct (collapsed s) \<longrightarrow>
      importJSON (exportJSON rt s) s0 =
        (s0\<lparr>nodes := nodes s, edges := edges s, collapsed := collapsed s\<rparr>, False))"
  using json_safe_image [of rt s] new_Set_distinct [of "collapsed s"]
  by (simp add: export_import_image)

theorem export_import_roundtrip_witness:
  "importJSON (exportJSON exact_runtime ((initial_state exact_runtime)\<lparr>nodes := []\<rparr>)) example_root_A =
     (example_root_A\<lparr>nodes := [], edges := [], collapsed := []\<rparr>, False) \<and>
   importJSON (exportJSON exact_runtime (initial_state exact_runtime)) example_root_A =
     (example_root_A\<lparr>nodes := [root_node exact_runtime], edges := [], collapsed := []\<rparr>, False) \<and>
   importJSON (exportJSON exact_runtime bent_edge_graph) (initial_state exact_runtime) =
     ((initial_state exact_runtime)\<lparr>nodes := nodes bent_edge_graph, edges := edges bent_edge_graph,
        collapsed := [''A'']\<rparr>, False) \<and>
   map node_id (nodes bent_edge_graph) = [''root'', ''A'', ''w1''] \<and>
   map (\<lambda>e. (source e, target e)) (edges bent_edge_graph) = [(''root'', ''w1''), (''w1'', ''A'')]"
proof -
  let ?i = "initial_state exact_runtime"
  have c: "collapsed bent_edge_graph = [''A'']"
    by (simp add: bent_edge_graph_def handler_defs)
  have g: "map node_id (nodes bent_edge_graph) = [''root'', ''A'', ''w1''] \<and>
   map (\<lambda>e. (source e, target e)) (edges bent_edge_graph) = [(''root'', ''w1''), (''w1'', ''A'')]"
    by (simp add: bent_edge_graph_def handler_defs)
  have s1: "json_safe exact_runtime (?i\<lparr>nodes := []\<rparr>) \<and> distinct (collapsed (?i\<lparr>nodes := []\<rparr>))"
    by (simp add: json_safe_def handler_defs)
  have s2: "json_safe exact_runtime ?i \<and> distinct (collapsed ?i)"
    by (simp add: json_safe_def node_safe_def number_safe_def color_safe_def handler_defs)
  have s3: "json_safe exact_runtime bent_edge_graph \<and> distinct (collapsed bent_edge_graph)"
    by (simp add: bent_edge_graph_def json_safe_def node_safe_def edge_safe_def number_safe_def
        color_safe_def handler_defs)
  have 1: "importJSON (exportJSON exact_runtime (?i\<lparr>nodes := []\<rparr>)) example_root_A =
     (example_root_A\<lparr>nodes := [], edges := [], collapsed := []\<rparr>, False)"
    using export_import_roundtrip [of exact_runtime "?i\<lparr>nodes := []\<rparr>" example_root_A, THEN conjunct2] s1
    by (simp add: initial_state_def)
  have 2: "importJSON (exportJSON exact_runtime ?i) example_root_A =
     (example_root_A\<lparr>nodes := [root_node exact_runtime], edges := [], collapsed := []\<rparr>, False)"
    using export_import_roundtrip [of exact_runtime ?i example_root_A, THEN conjunct2] s2
    by (simp add: initial_state_def)
  have 3: "importJSON (exportJSON exact_runtime bent_edge_graph) ?i =
     (?i\<lparr>nodes := nodes bent_edge_graph, edges := edges bent_edge_graph,
        collapsed := [''A'']\<rparr>, False)"
    using export_import_roundtrip [of exact_runtime bent_edge_graph ?i, THEN conjunct2] s3 c
    by simp
  show ?thesis using 1 2 3 g by blast
qed

text \<open>
  C9 as stated fails: in \<open>inherited_colour_graph\<close> the colour of the added child is the
  inherited property \<^verbatim>\<open>constructor\<close> of the palette, a function, which JSON leaves out; after
  export and import the child has no colour.
\<close>

theorem export_import_drops_inherited_colour:
  "map (\<lambda>n. (node_id n, data_subject (node_data n), data_color (node_data n)))
     (nodes inherited_colour_graph) =
     [(''root'', Some ''constructor'', Some (ColorString SUBJECTS_Default)),
      (''n1'', Some ''constructor'', Some (Inherited ''constructor''))] \<and>
   map (\<lambda>n. (node_id n, data_subject (node_data n), data_color (node_data n)))
     (nodes (fst (importJSON (exportJSON exact_runtime inherited_colour_graph)
                    inherited_colour_graph))) =
     [(''root'', Some ''constructor'', Some (ColorString SUBJECTS_Default)),
      (''n1'', Some ''constructor'', None)]"
proof -
  let ?view = "\<lambda>n::rat node. (node_id n, data_subject (node_data n), data_color (node_data n))"
  have g: "map ?view (nodes inherited_colour_graph) =
     [(''root'', Some ''constructor'', Some (ColorString SUBJECTS_Default)),
      (''n1'', Some ''constructor'', Some (Inherited ''constructor''))]"
    by (simp add: inherited_colour_graph_def constructor_file_def importJSON_def JSON_parse_def
        or_empty_def handler_defs)
  have v: "?view (json_node exact_runtime n) =
      (node_id n, data_subject (node_data n),
       case data_color (node_data n) of None \<Rightarrow> None | Some c \<Rightarrow> json_color c)" for n
    by (simp add: json_node_def json_data_def)
  have "map ?view (nodes (fst (importJSON (exportJSON exact_runtime inherited_colour_graph)
                    inherited_colour_graph))) =
      map (\<lambda>(i, subject, c). (i, subject, case c of None \<Rightarrow> None | Some c \<Rightarrow> json_color c))
        (map ?view (nodes inherited_colour_graph))"
    by (simp add: export_import_image v comp_def)
  also have "\<dots> = [(''root'', Some ''constructor'', Some (ColorString SUBJECTS_Default)),
      (''n1'', Some ''constructor'', None)]"
    unfolding g by (simp add: json_color_def)
  finally show ?thesis using g by simp
qed

text \<open>
  C10. \<open>computeHiddenTargets\<close> is a total function: its loop terminates for every list of
  collapsed ids and every edge list, cycles and self-loops included. It returns a set (a
  list without repetition) of at most as many ids as there are edges. The ids pushed on
  the queue are exactly the ids added to the hidden set, in the same order, so no id is
  pushed twice; the loop takes from the queue the collapsed ids followed by the pushed
  ids.
\<close>

theorem computeHiddenTargets_terminates:
  "distinct (computeHiddenTargets collapsedIds eds) \<and>
   length (computeHiddenTargets collapsedIds eds) \<le> length eds \<and>
   pushed_ids collapsedIds eds = computeHiddenTargets collapsedIds eds \<and>
   shifted_ids collapsedIds eds = collapsedIds @ computeHiddenTargets collapsedIds eds \<and>
   computeHiddenTargets [''A''] [blank_edge ''e1'' ''A'' ''B'', blank_edge ''e2'' ''B'' ''A''] = [''B'', ''A''] \<and>
   computeHiddenTargets [''A''] [blank_edge ''e1'' ''A'' ''A''] = [''A'']"
  using computeHiddenTargets_distinct [of collapsedIds eds]
    computeHiddenTargets_length [of collapsedIds eds] trace_ids [of collapsedIds eds]
  by (simp add: computeHiddenTargets_def blank_edge_def)

end
